theory Spec2Isabelle
  imports Main "HOL-Library.Word"
begin

section \<open>Values of the Python program\<close>

text \<open>
  The development follows \<^verbatim>\<open>response.py\<close> as it runs under Python 3: \<^verbatim>\<open>six.PY2\<close> is
  false and \<^verbatim>\<open>six.text_type\<close> is \<^verbatim>\<open>str\<close>. A byte string is a list of 8-bit words, a
  decoded text is the list of its code points, and encoding names, header values after
  \<^verbatim>\<open>to_native_str\<close> and URLs are ASCII strings.
\<close>

type_synonym byte = "8 word"
type_synonym bytes = "byte list"
type_synonym ustr = "nat list"
type_synonym headers = "(bytes \<times> bytes) list"

datatype error = TypeError string | UnicodeError | LookupError

text \<open>The argument passed as \<^verbatim>\<open>body\<close>: \<^verbatim>\<open>None\<close>, a \<^verbatim>\<open>bytes\<close> object, a \<^verbatim>\<open>str\<close>, or any
  other object. The argument passed as \<^verbatim>\<open>url\<close>: a \<^verbatim>\<open>str\<close> or any other object.\<close>

datatype pybody = BodyNone | BodyBytes bytes | BodyText ustr | BodyOther

datatype pyurl = UrlStr string | UrlOther

text \<open>Truth value of an optional string in a Python \<^verbatim>\<open>or\<close> chain: \<^verbatim>\<open>None\<close> and the empty
  string are false.\<close>

fun truthy :: "string option \<Rightarrow> bool" where
  "truthy None = False"
| "truthy (Some s) = (s \<noteq> [])"

text \<open>A bytes literal \<^verbatim>\<open>b'...'\<close> of ASCII characters.\<close>

definition bytes_of :: "string \<Rightarrow> bytes" where
  "bytes_of s = map of_char s"

section \<open>Strict decoding of the three codecs tried by the detector\<close>

text \<open>
  \<^verbatim>\<open>bytes.decode(enc)\<close> with the default error handler raises \<^verbatim>\<open>UnicodeDecodeError\<close>
  (a \<^verbatim>\<open>UnicodeError\<close>) at the first byte sequence the codec cannot decode. One UTF-8 step
  reads the sequence at the head of the input and returns its code point, or nothing for
  an ill-formed sequence, together with the unread rest; an ill-formed sequence spans the
  lead byte and the continuation bytes that were still acceptable.
\<close>

definition is_cont :: "byte \<Rightarrow> bool" where
  "is_cont c = (0x80 \<le> c \<and> c \<le> 0xBF)"

definition cont_bits :: "byte \<Rightarrow> nat" where
  "cont_bits c = unat c - 0x80"

definition second_ok :: "byte \<Rightarrow> byte \<Rightarrow> bool" where
  "second_ok lead c =
     (if lead = 0xE0 then 0xA0 \<le> c \<and> c \<le> 0xBF
      else if lead = 0xED then 0x80 \<le> c \<and> c \<le> 0x9F
      else if lead = 0xF0 then 0x90 \<le> c \<and> c \<le> 0xBF
      else if lead = 0xF4 then 0x80 \<le> c \<and> c \<le> 0x8F
      else is_cont c)"

fun utf8_step :: "bytes \<Rightarrow> nat option \<times> bytes" where
  "utf8_step [] = (None, [])"
| "utf8_step (c0 # cs) =
     (if c0 < 0x80 then (Some (unat c0), cs)
      else if c0 < 0xC2 \<or> 0xF4 < c0 then (None, cs)
      else if c0 < 0xE0 then
        (case cs of
           c1 # r1 \<Rightarrow> if is_cont c1
                      then (Some ((unat c0 - 0xC0) * 64 + cont_bits c1), r1)
                      else (None, cs)
         | [] \<Rightarrow> (None, []))
      else if c0 < 0xF0 then
        (case cs of
           c1 # c2 # r2 \<Rightarrow>
             if \<not> second_ok c0 c1 then (None, cs)
             else if \<not> is_cont c2 then (None, c2 # r2)
             else (Some ((unat c0 - 0xE0) * 4096 + cont_bits c1 * 64 + cont_bits c2), r2)
         | [c1] \<Rightarrow> if second_ok c0 c1 then (None, []) else (None, cs)
         | [] \<Rightarrow> (None, []))
      else
        (case cs of
           c1 # c2 # c3 # r3 \<Rightarrow>
             if \<not> second_ok c0 c1 then (None, cs)
             else if \<not> is_cont c2 then (None, c2 # c3 # r3)
             else if \<not> is_cont c3 then (None, c3 # r3)
             else (Some ((unat c0 - 0xF0) * 262144 + cont_bits c1 * 4096
                          + cont_bits c2 * 64 + cont_bits c3), r3)
         | [c1, c2] \<Rightarrow>
             if \<not> second_ok c0 c1 then (None, cs)
             else if \<not> is_cont c2 then (None, [c2])
             else (None, [])
         | [c1] \<Rightarrow> if second_ok c0 c1 then (None, []) else (None, cs)
         | [] \<Rightarrow> (None, [])))"

lemma utf8_step_shorter: "length (snd (utf8_step (c0 # cs))) \<le> length cs"
  by (simp split: list.split)

function decode_utf_8 :: "bytes \<Rightarrow> error + ustr" where
  "decode_utf_8 [] = Inr []"
| "decode_utf_8 (c0 # cs) =
     (case utf8_step (c0 # cs) of
        (None, rest) \<Rightarrow> Inl UnicodeError
      | (Some u, rest) \<Rightarrow>
          (case decode_utf_8 rest of Inl e \<Rightarrow> Inl e | Inr us \<Rightarrow> Inr (u # us)))"
  by pat_completeness auto
termination
  apply (relation "measure length")
   apply simp
  subgoal for c0 cs x xa y
    using utf8_step_shorter [of c0 cs]
    by (metis in_measure length_Cons less_Suc_eq_le snd_conv)
  done

definition decode_ascii :: "bytes \<Rightarrow> error + ustr" where
  "decode_ascii bs = (if list_all (\<lambda>c. c < 0x80) bs then Inr (map unat bs) else Inl UnicodeError)"

text \<open>The code page 1252 table of CPython: five positions of the block 0x80--0x9F are
  undefined, every byte outside the block is its own code point.\<close>

definition cp1252_high :: "nat option list" where
  "cp1252_high =
     [Some 0x20AC, None, Some 0x201A, Some 0x0192, Some 0x201E, Some 0x2026, Some 0x2020,
      Some 0x2021, Some 0x02C6, Some 0x2030, Some 0x0160, Some 0x2039, Some 0x0152, None,
      Some 0x017D, None, None, Some 0x2018, Some 0x2019, Some 0x201C, Some 0x201D,
      Some 0x2022, Some 0x2013, Some 0x2014, Some 0x02DC, Some 0x2122, Some 0x0161,
      Some 0x203A, Some 0x0153, None, Some 0x017E, Some 0x0178]"

definition cp1252_char :: "byte \<Rightarrow> nat option" where
  "cp1252_char c =
     (if 0x80 \<le> c \<and> c \<le> 0x9F then cp1252_high ! (unat c - 0x80) else Some (unat c))"

definition decode_cp1252 :: "bytes \<Rightarrow> error + ustr" where
  "decode_cp1252 bs =
     (if list_all (\<lambda>c. cp1252_char c \<noteq> None) bs then Inr (map (the \<circ> cp1252_char) bs)
      else Inl UnicodeError)"

text \<open>\<^verbatim>\<open>text.decode(enc)\<close> for the codec names the source passes; a name outside the three
  is not looked up by this model and counts as unknown.\<close>

definition bytes_decode :: "bytes \<Rightarrow> string \<Rightarrow> error + ustr" where
  "bytes_decode text enc =
     (if enc = ''ascii'' then decode_ascii text
      else if enc = ''utf-8'' then decode_utf_8 text
      else if enc = ''cp1252'' then decode_cp1252 text
      else Inl LookupError)"

section \<open>Collaborators outside the two source files\<close>

text \<open>
  \<^verbatim>\<open>response.py\<close> imports four functions of the library \<^verbatim>\<open>w3lib.encoding\<close>
  and the modules \<^verbatim>\<open>.utils\<close> and \<^verbatim>\<open>.headers\<close> of its own
  package. Their code is not part of the two source files, so the functions of the
  response classes take them as a parameter \<open>L\<close>: every statement proved for all \<open>L\<close>
  holds whatever these collaborators compute.
  \<^item> \<open>headers_get\<close> is \<^verbatim>\<open>Headers.get(name, default)\<close>;
  \<^item> \<open>to_native_str\<close> is \<^verbatim>\<open>to_native_str(text, encoding=None)\<close>, called once with the
    bytes of a header value and once with the \<^verbatim>\<open>str\<close> URL and the response's encoding;
  \<^item> \<open>html_to_unicode\<close> is called as
    \<^verbatim>\<open>html_to_unicode(content_type_header, html_body_str, default_encoding, auto_detect_fun)\<close>;
    it runs the detector it is handed, so its result carries the exception the detector
    may raise;
  \<^item> \<open>str_encode\<close> is \<^verbatim>\<open>str.encode(encoding)\<close>, which raises for an unknown codec name
    or a character the codec cannot encode.
\<close>

record lib =
  headers_get :: "headers \<Rightarrow> bytes \<Rightarrow> bytes \<Rightarrow> bytes"
  to_native_str :: "bytes + string \<Rightarrow> string option \<Rightarrow> string"
  http_content_type_encoding :: "string \<Rightarrow> string option"
  html_body_declared_encoding :: "bytes \<Rightarrow> string option"
  resolve_encoding :: "string \<Rightarrow> string option"
  html_to_unicode ::
    "string \<Rightarrow> bytes \<Rightarrow> string \<Rightarrow> (bytes \<Rightarrow> error + string option) option
       \<Rightarrow> error + (string \<times> ustr)"
  str_encode :: "ustr \<Rightarrow> string \<Rightarrow> error + bytes"

section \<open>The response objects\<close>

text \<open>
  \<^verbatim>\<open>TextResponse\<close> extends \<^verbatim>\<open>Response\<close>. The attributes \<^verbatim>\<open>_url\<close>, \<^verbatim>\<open>_body\<close> and
  \<^verbatim>\<open>_encoding\<close> are the fields \<open>p_url\<close>, \<open>p_body\<close> and \<open>p_encoding\<close>; \<^verbatim>\<open>_cached_benc\<close>,
  \<^verbatim>\<open>_cached_ubody\<close> and \<^verbatim>\<open>_cached_selector\<close> keep their names. The two methods wrapped by
  \<^verbatim>\<open>memoizemethod_noargs\<close> have one cache cell each, \<open>memo_headers_encoding\<close> and
  \<open>memo_body_declared_encoding\<close>: \<open>None\<close> is an empty cell, \<open>Some v\<close> holds the result
  \<open>v\<close>, which may itself be Python's \<^verbatim>\<open>None\<close>. The originating request is an opaque reference.
  A selector built from a response holds the text and the base URL it was given.
\<close>

datatype selector = Selector ustr string

record response =
  headers :: headers
  status :: int
  p_body :: bytes
  p_url :: string
  request :: "nat option"
  flags :: "string list"

record text_response = response +
  p_encoding :: "string option"
  cached_benc :: "string option"
  cached_ubody :: "ustr option"
  cached_selector :: "selector option"
  memo_headers_encoding :: "string option option"
  memo_body_declared_encoding :: "string option option"

subsection \<open>Response\<close>

definition body_type_error :: error where
  "body_type_error = TypeError ''Response body must be bytes. If you want to pass unicode body use TextResponse or HtmlResponse.''"

definition url_type_error :: error where
  "url_type_error = TypeError ''url must be str''"

definition Response_set_url :: "pyurl \<Rightarrow> 'a response_scheme \<Rightarrow> error + 'a response_scheme" where
  "Response_set_url url self =
     (case url of
        UrlStr u \<Rightarrow> Inr (self\<lparr>p_url := u\<rparr>)
      | UrlOther \<Rightarrow> Inl url_type_error)"

definition Response_set_body :: "pybody \<Rightarrow> 'a response_scheme \<Rightarrow> error + 'a response_scheme" where
  "Response_set_body body self =
     (case body of
        BodyNone \<Rightarrow> Inr (self\<lparr>p_body := []\<rparr>)
      | BodyBytes bs \<Rightarrow> Inr (self\<lparr>p_body := bs\<rparr>)
      | _ \<Rightarrow> Inl body_type_error)"

text \<open>\<^verbatim>\<open>__init__\<close> runs on the object \<open>self\<close> that was allocated for the call: it assigns
  \<^verbatim>\<open>headers\<close> and \<^verbatim>\<open>status\<close>, runs the two setters, then assigns \<^verbatim>\<open>request\<close> and \<^verbatim>\<open>flags\<close>.
  The new object has none of these attributes yet. The record \<open>self\<close> stands for it with
  arbitrary contents: what \<^verbatim>\<open>__init__\<close> leaves in an attribute is what it assigned, whatever
  the record held there.\<close>

definition Response_init ::
  "'a response_scheme \<Rightarrow> pyurl \<Rightarrow> int \<Rightarrow> headers option \<Rightarrow> pybody \<Rightarrow> string list option
     \<Rightarrow> nat option \<Rightarrow> error + 'a response_scheme" where
  "Response_init self url st hdrs body flgs req =
     (let self0 = self\<lparr>headers := (case hdrs of None \<Rightarrow> [] | Some h \<Rightarrow> h), status := st\<rparr>
      in case Response_set_body body self0 of
           Inl e \<Rightarrow> Inl e
         | Inr self1 \<Rightarrow>
             (case Response_set_url url self1 of
                Inl e \<Rightarrow> Inl e
              | Inr self2 \<Rightarrow>
                  Inr (self2\<lparr>request := req,
                             flags := (case flgs of None \<Rightarrow> [] | Some f \<Rightarrow> f)\<rparr>)))"

subsection \<open>TextResponse: encoding resolution\<close>

definition DEFAULT_ENCODING :: string where
  "DEFAULT_ENCODING = ''ascii''"

text \<open>Modelled from the spec: \<^verbatim>\<open>memoizemethod_noargs\<close> of \<^verbatim>\<open>.utils\<close>, which is not among
  the source files. The spec has each of the two wrapped results "computed at most once"
  and kept for the lifetime of the object: the method runs when the cell is empty and
  its result is stored; afterwards the cell is returned.\<close>

definition memoizemethod_noargs ::
  "('s \<Rightarrow> 'v option) \<Rightarrow> ('v \<Rightarrow> 's \<Rightarrow> 's) \<Rightarrow> ('s \<Rightarrow> 'v) \<Rightarrow> 's \<Rightarrow> 'v \<times> 's" where
  "memoizemethod_noargs cell store method self =
     (case cell self of
        Some v \<Rightarrow> (v, self)
      | None \<Rightarrow> (let v = method self in (v, store v self)))"

definition content_type :: "lib \<Rightarrow> text_response \<Rightarrow> bytes" where
  "content_type L self = headers_get L (headers self) (bytes_of ''Content-Type'') []"

text \<open>The bodies of \<^verbatim>\<open>_headers_encoding\<close> and \<^verbatim>\<open>_body_declared_encoding\<close>, and the two
  methods as decorated.\<close>

definition headers_encoding_method :: "lib \<Rightarrow> text_response \<Rightarrow> string option" where
  "headers_encoding_method L self =
     http_content_type_encoding L (to_native_str L (Inl (content_type L self)) None)"

definition body_declared_encoding_method :: "lib \<Rightarrow> text_response \<Rightarrow> string option" where
  "body_declared_encoding_method L self = html_body_declared_encoding L (p_body self)"

definition headers_encoding :: "lib \<Rightarrow> text_response \<Rightarrow> string option \<times> text_response" where
  "headers_encoding L =
     memoizemethod_noargs memo_headers_encoding
       (\<lambda>v s. s\<lparr>memo_headers_encoding := Some v\<rparr>) (headers_encoding_method L)"

definition body_declared_encoding :: "lib \<Rightarrow> text_response \<Rightarrow> string option \<times> text_response" where
  "body_declared_encoding L =
     memoizemethod_noargs memo_body_declared_encoding
       (\<lambda>v s. s\<lparr>memo_body_declared_encoding := Some v\<rparr>) (body_declared_encoding_method L)"

text \<open>The loop of \<^verbatim>\<open>_auto_detect_fun\<close>: a \<^verbatim>\<open>UnicodeError\<close> moves on to the next candidate,
  any other exception leaves the function, and a loop that runs out returns \<^verbatim>\<open>None\<close>.\<close>

fun auto_detect_loop :: "lib \<Rightarrow> bytes \<Rightarrow> string list \<Rightarrow> error + string option" where
  "auto_detect_loop L text [] = Inr None"
| "auto_detect_loop L text (enc # encs) =
     (case bytes_decode text enc of
        Inl UnicodeError \<Rightarrow> auto_detect_loop L text encs
      | Inl e \<Rightarrow> Inl e
      | Inr u \<Rightarrow> Inr (resolve_encoding L enc))"

definition auto_detect_fun :: "lib \<Rightarrow> bytes \<Rightarrow> error + string option" where
  "auto_detect_fun L text = auto_detect_loop L text [DEFAULT_ENCODING, ''utf-8'', ''cp1252'']"

definition body_inferred_encoding :: "lib \<Rightarrow> text_response \<Rightarrow> error + (string \<times> text_response)" where
  "body_inferred_encoding L self =
     (case cached_benc self of
        Some benc \<Rightarrow> Inr (benc, self)
      | None \<Rightarrow>
          (case html_to_unicode L (to_native_str L (Inl (content_type L self)) None)
                  (p_body self) DEFAULT_ENCODING (Some (auto_detect_fun L)) of
             Inl e \<Rightarrow> Inl e
           | Inr (benc, ubody) \<Rightarrow>
               Inr (benc, self\<lparr>cached_benc := Some benc, cached_ubody := Some ubody\<rparr>)))"

text \<open>\<^verbatim>\<open>self._encoding or self._headers_encoding() or self._body_declared_encoding()\<close>: an
  operand is evaluated only when every operand before it was false, and the last operand
  is the value when it is reached.\<close>

definition declared_encoding :: "lib \<Rightarrow> text_response \<Rightarrow> string option \<times> text_response" where
  "declared_encoding L self =
     (if truthy (p_encoding self) then (p_encoding self, self)
      else case headers_encoding L self of
             (h, self1) \<Rightarrow> if truthy h then (h, self1) else body_declared_encoding L self1)"

definition encoding :: "lib \<Rightarrow> text_response \<Rightarrow> error + (string \<times> text_response)" where
  "encoding L self =
     (case declared_encoding L self of
        (d, self1) \<Rightarrow> if truthy d then Inr (the d, self1) else body_inferred_encoding L self1)"

subsection \<open>TextResponse: decoded text\<close>

text \<open>The \<^verbatim>\<open>text\<close> property.\<close>

definition response_text :: "lib \<Rightarrow> text_response \<Rightarrow> error + (ustr \<times> text_response)" where
  "response_text L self =
     (case encoding L self of
        Inl e \<Rightarrow> Inl e
      | Inr (benc, self1) \<Rightarrow>
          (case cached_ubody self1 of
             Some ubody \<Rightarrow> Inr (ubody, self1)
           | None \<Rightarrow>
               (case html_to_unicode L (''charset='' @ benc) (p_body self1) ''utf8'' None of
                  Inl e \<Rightarrow> Inl e
                | Inr (enc, ubody) \<Rightarrow> Inr (ubody, self1\<lparr>cached_ubody := Some ubody\<rparr>))))"

definition body_as_unicode :: "lib \<Rightarrow> text_response \<Rightarrow> error + (ustr \<times> text_response)" where
  "body_as_unicode L self = response_text L self"

text \<open>The \<^verbatim>\<open>selector\<close> property builds the selector from \<^verbatim>\<open>response.text\<close> and
  \<^verbatim>\<open>response.url\<close> on first use and keeps it.\<close>

definition selector :: "lib \<Rightarrow> text_response \<Rightarrow> error + (selector \<times> text_response)" where
  "selector L self =
     (case cached_selector self of
        Some sel \<Rightarrow> Inr (sel, self)
      | None \<Rightarrow>
          (case response_text L self of
             Inl e \<Rightarrow> Inl e
           | Inr (t, self1) \<Rightarrow>
               Inr (Selector t (p_url self1),
                    self1\<lparr>cached_selector := Some (Selector t (p_url self1))\<rparr>)))"

subsection \<open>TextResponse: construction\<close>

definition no_encoding_error :: error where
  "no_encoding_error = TypeError ''Cannot convert unicode body - TextResponse has no encoding''"

definition TextResponse_set_body :: "lib \<Rightarrow> pybody \<Rightarrow> text_response \<Rightarrow> error + text_response" where
  "TextResponse_set_body L body self =
     (let self0 = self\<lparr>p_body := []\<rparr>
      in case body of
           BodyText t \<Rightarrow>
             (case p_encoding self0 of
                None \<Rightarrow> Inl no_encoding_error
              | Some enc \<Rightarrow>
                  (case str_encode L t enc of
                     Inl e \<Rightarrow> Inl e
                   | Inr bs \<Rightarrow> Inr (self0\<lparr>p_body := bs\<rparr>)))
         | _ \<Rightarrow> Response_set_body body self0)"

text \<open>For a \<^verbatim>\<open>str\<close> URL the guard \<^verbatim>\<open>six.PY2 and self.encoding is None\<close> stops at
  \<^verbatim>\<open>six.PY2\<close>; the argument \<^verbatim>\<open>self.encoding\<close> of \<^verbatim>\<open>to_native_str\<close> is then evaluated
  before the call, on the object as \<^verbatim>\<open>_set_body\<close> left it.\<close>

definition TextResponse_set_url :: "lib \<Rightarrow> pyurl \<Rightarrow> text_response \<Rightarrow> error + text_response" where
  "TextResponse_set_url L url self =
     (case url of
        UrlStr u \<Rightarrow>
          (case encoding L self of
             Inl e \<Rightarrow> Inl e
           | Inr (enc, self1) \<Rightarrow> Inr (self1\<lparr>p_url := to_native_str L (Inr u) (Some enc)\<rparr>))
      | UrlOther \<Rightarrow> Response_set_url url self)"

text \<open>\<^verbatim>\<open>TextResponse.__init__\<close> stores the \<^verbatim>\<open>encoding\<close> keyword and empties the three
  \<^verbatim>\<open>_cached_\<close> attributes, then runs \<^verbatim>\<open>Response.__init__\<close>, whose calls of the two setters
  reach the overriding methods. The memo cells of a new object are empty.
  \<open>before_setters\<close> is the object at the call of \<^verbatim>\<open>_set_body\<close>; its \<^verbatim>\<open>_body\<close> and \<^verbatim>\<open>_url\<close>
  are not assigned yet, and the empty values the record holds for them are never read:
  \<^verbatim>\<open>_set_body\<close> starts by assigning \<^verbatim>\<open>b''\<close>, and nothing reads \<^verbatim>\<open>_url\<close> before \<^verbatim>\<open>_set_url\<close>
  assigns it.\<close>

definition before_setters :: "headers option \<Rightarrow> int \<Rightarrow> string option \<Rightarrow> text_response" where
  "before_setters hdrs st enc =
     \<lparr>headers = (case hdrs of None \<Rightarrow> [] | Some h \<Rightarrow> h), status = st,
      p_body = [], p_url = [], request = None, flags = [],
      p_encoding = enc, cached_benc = None, cached_ubody = None,
      cached_selector = None, memo_headers_encoding = None,
      memo_body_declared_encoding = None\<rparr>"

definition TextResponse_init ::
  "lib \<Rightarrow> pyurl \<Rightarrow> int \<Rightarrow> headers option \<Rightarrow> pybody \<Rightarrow> string list option \<Rightarrow> nat option
     \<Rightarrow> string option \<Rightarrow> error + text_response" where
  "TextResponse_init L url st hdrs body flgs req enc =
     (case TextResponse_set_body L body (before_setters hdrs st enc) of
        Inl e \<Rightarrow> Inl e
      | Inr self1 \<Rightarrow>
          (case TextResponse_set_url L url self1 of
             Inl e \<Rightarrow> Inl e
           | Inr self2 \<Rightarrow>
               Inr (self2\<lparr>request := req,
                          flags := (case flgs of None \<Rightarrow> [] | Some f \<Rightarrow> f)\<rparr>)))"

subsection \<open>urljoin\<close>

text \<open>
  The first argument of \<^verbatim>\<open>urllib.parse.urljoin\<close> is a \<^verbatim>\<open>str\<close> or some other object; a
  response object is true in a condition. The function returns \<^verbatim>\<open>url\<close> for a false base
  and the base for an empty \<^verbatim>\<open>url\<close>; then \<^verbatim>\<open>_coerce_args\<close> raises \<^verbatim>\<open>TypeError\<close> when the
  base is not a \<^verbatim>\<open>str\<close> and \<^verbatim>\<open>url\<close> is a non-empty \<^verbatim>\<open>str\<close>. The resolution of two
  non-empty strings is the parameter \<open>join\<close>.
\<close>

datatype 'r pyarg = ArgStr string | ArgObj 'r

definition mix_error :: error where
  "mix_error = TypeError ''Cannot mix str and non-str arguments''"

definition urljoin :: "(string \<Rightarrow> string \<Rightarrow> string) \<Rightarrow> 'r pyarg \<Rightarrow> string \<Rightarrow> error + 'r pyarg" where
  "urljoin join base url =
     (if base = ArgStr [] then Inr (ArgStr url)
      else if url = [] then Inr base
      else case base of
             ArgStr s \<Rightarrow> Inr (ArgStr (join s url))
           | ArgObj obj \<Rightarrow> Inl mix_error)"

definition Response_urljoin ::
  "(string \<Rightarrow> string \<Rightarrow> string) \<Rightarrow> 'a response_scheme \<Rightarrow> string
     \<Rightarrow> error + 'a response_scheme pyarg" where
  "Response_urljoin join self url = urljoin join (ArgStr (p_url self)) url"

definition TextResponse_urljoin ::
  "(string \<Rightarrow> string \<Rightarrow> string) \<Rightarrow> text_response \<Rightarrow> string
     \<Rightarrow> error + text_response pyarg" where
  "TextResponse_urljoin join self url = urljoin join (ArgObj self) url"

section \<open>A small instance of the collaborators\<close>

text \<open>
  To run the response classes on concrete inputs the parameter \<open>L\<close> needs a value. The
  instance \<open>w3lib\<close> follows the published definitions of \<^verbatim>\<open>w3lib.encoding\<close> on a codec
  registry cut down to ASCII, UTF-8, code page 1252 and \<^verbatim>\<open>hex\<close>. The last one stands for
  the codecs of Python's registry that are not text encodings: \<^verbatim>\<open>codecs.lookup\<close> finds
  \<^verbatim>\<open>hex\<close>, so \<^verbatim>\<open>resolve_encoding\<close> returns its name, but \<^verbatim>\<open>bytes.decode\<close> and \<^verbatim>\<open>str.encode\<close>
  refuse it with \<^verbatim>\<open>LookupError\<close> under every error handler.
  \<^item> \<^verbatim>\<open>resolve_encoding\<close> knows the spellings of \<open>known_encodings\<close>; as in the library's
    translation table, \<^verbatim>\<open>ascii\<close> and \<^verbatim>\<open>latin-1\<close> resolve to \<^verbatim>\<open>cp1252\<close>;
  \<^item> \<^verbatim>\<open>http_content_type_encoding\<close> searches for \<^verbatim>\<open>charset=\<close> followed by word characters
    or hyphens, ignoring case, and resolves the name found;
  \<^item> \<^verbatim>\<open>html_body_declared_encoding\<close> finds no declaration, which is the library's answer
    for a body without the character \<^verbatim>\<open><\<close>; the examples use such bodies only;
  \<^item> \<^verbatim>\<open>html_to_unicode\<close> tries the header charset, the byte order mark, the declaration
    in the body, the detector and the default encoding in this order, and decodes with
    \<^verbatim>\<open>bytes.decode(enc, 'replace')\<close>: under a text encoding each undecodable sequence
    becomes U+FFFD, under any other name the call raises \<^verbatim>\<open>LookupError\<close>; the byte order
    mark table holds the UTF-8 entry only;
  \<^item> header lookup ignores the case of the name, and \<^verbatim>\<open>to_native_str\<close> reads header bytes
    as characters and returns a \<^verbatim>\<open>str\<close> unchanged.
\<close>

definition lower_char :: "char \<Rightarrow> char" where
  "lower_char c =
     (let n = (of_char c :: nat) in if 0x41 \<le> n \<and> n \<le> 0x5A then char_of (n + 0x20) else c)"

definition known_encodings :: "(string \<times> string) list" where
  "known_encodings =
     [(''ascii'', ''cp1252''), (''us-ascii'', ''cp1252''), (''latin-1'', ''cp1252''),
      (''latin1'', ''cp1252''), (''iso-8859-1'', ''cp1252''), (''cp1252'', ''cp1252''),
      (''windows-1252'', ''cp1252''), (''utf-8'', ''utf-8''), (''utf8'', ''utf-8''),
      (''utf_8'', ''utf-8''), (''hex'', ''hex''), (''hex_codec'', ''hex'')]"

definition w3_resolve_encoding :: "string \<Rightarrow> string option" where
  "w3_resolve_encoding alias = map_of known_encodings (map lower_char alias)"

definition charset_char :: "char \<Rightarrow> bool" where
  "charset_char c =
     (let n = (of_char c :: nat)
      in (0x61 \<le> n \<and> n \<le> 0x7A) \<or> (0x41 \<le> n \<and> n \<le> 0x5A) \<or> (0x30 \<le> n \<and> n \<le> 0x39)
         \<or> c = CHR ''_'' \<or> c = CHR ''-'')"

fun find_charset :: "string \<Rightarrow> string option" where
  "find_charset [] = None"
| "find_charset (c # cs) =
     (if map lower_char (take 8 (c # cs)) = ''charset=''
         \<and> takeWhile charset_char (drop 8 (c # cs)) \<noteq> []
      then Some (takeWhile charset_char (drop 8 (c # cs)))
      else find_charset cs)"

definition w3_http_content_type_encoding :: "string \<Rightarrow> string option" where
  "w3_http_content_type_encoding ct =
     (if ct = [] then None
      else case find_charset ct of None \<Rightarrow> None | Some name \<Rightarrow> w3_resolve_encoding name)"

definition w3_html_body_declared_encoding :: "bytes \<Rightarrow> string option" where
  "w3_html_body_declared_encoding body = None"

definition BOM_UTF8 :: bytes where
  "BOM_UTF8 = [0xEF, 0xBB, 0xBF]"

definition read_bom :: "bytes \<Rightarrow> (string \<times> bytes) option" where
  "read_bom data = (if take 3 data = BOM_UTF8 then Some (''utf-8'', BOM_UTF8) else None)"

function replace_utf_8 :: "bytes \<Rightarrow> ustr" where
  "replace_utf_8 [] = []"
| "replace_utf_8 (c0 # cs) =
     (case utf8_step (c0 # cs) of
        (None, rest) \<Rightarrow> 0xFFFD # replace_utf_8 rest
      | (Some u, rest) \<Rightarrow> u # replace_utf_8 rest)"
  by pat_completeness auto
termination
  apply (relation "measure length")
    apply simp
   apply (metis utf8_step_shorter in_measure length_Cons less_Suc_eq_le snd_conv)+
  done

definition to_unicode :: "bytes \<Rightarrow> string \<Rightarrow> error + ustr" where
  "to_unicode data enc =
     (if enc = ''utf-8'' \<or> enc = ''utf8'' then Inr (replace_utf_8 data)
      else if enc = ''cp1252''
        then Inr (map (\<lambda>c. case cp1252_char c of None \<Rightarrow> 0xFFFD | Some u \<Rightarrow> u) data)
      else if enc = ''ascii''
        then Inr (map (\<lambda>c. if c < 0x80 then unat c else 0xFFFD) data)
      else Inl LookupError)"

definition w3_html_to_unicode ::
  "string \<Rightarrow> bytes \<Rightarrow> string \<Rightarrow> (bytes \<Rightarrow> error + string option) option
     \<Rightarrow> error + (string \<times> ustr)" where
  "w3_html_to_unicode content_type_header html_body_str default_encoding auto_detect =
     (let decoded = (\<lambda>enc data. case to_unicode data enc of
                                  Inl e \<Rightarrow> Inl e | Inr u \<Rightarrow> Inr (enc, u))
      in case w3_http_content_type_encoding content_type_header of
           Some enc \<Rightarrow>
             (case read_bom html_body_str of
                Some (bom_enc, bom) \<Rightarrow>
                  if enc = bom_enc then decoded enc (drop (length bom) html_body_str)
                  else decoded enc html_body_str
              | None \<Rightarrow> decoded enc html_body_str)
         | None \<Rightarrow>
             (case read_bom html_body_str of
                Some (bom_enc, bom) \<Rightarrow> decoded bom_enc (drop (length bom) html_body_str)
              | None \<Rightarrow>
                  (case w3_html_body_declared_encoding html_body_str of
                     Some enc \<Rightarrow> decoded enc html_body_str
                   | None \<Rightarrow>
                       (case auto_detect of
                          None \<Rightarrow> decoded default_encoding html_body_str
                        | Some f \<Rightarrow>
                            (case f html_body_str of
                               Inl e \<Rightarrow> Inl e
                             | Inr None \<Rightarrow> decoded default_encoding html_body_str
                             | Inr (Some enc) \<Rightarrow> decoded enc html_body_str)))))"

fun encode_utf_8_char :: "nat \<Rightarrow> bytes option" where
  "encode_utf_8_char u =
     (if u < 0x80 then Some [of_nat u]
      else if u < 0x800 then Some [of_nat (0xC0 + u div 64), of_nat (0x80 + u mod 64)]
      else if 0xD800 \<le> u \<and> u \<le> 0xDFFF then None
      else if u < 0x10000
        then Some [of_nat (0xE0 + u div 4096), of_nat (0x80 + u div 64 mod 64),
                   of_nat (0x80 + u mod 64)]
      else if u < 0x110000
        then Some [of_nat (0xF0 + u div 262144), of_nat (0x80 + u div 4096 mod 64),
                   of_nat (0x80 + u div 64 mod 64), of_nat (0x80 + u mod 64)]
      else None)"

definition w3_str_encode :: "ustr \<Rightarrow> string \<Rightarrow> error + bytes" where
  "w3_str_encode t enc =
     (if enc = ''utf-8'' \<or> enc = ''utf8''
        then (if list_all (\<lambda>u. encode_utf_8_char u \<noteq> None) t
              then Inr (concat (map (the \<circ> encode_utf_8_char) t)) else Inl UnicodeError)
      else if enc = ''ascii''
        then (if list_all (\<lambda>u. u < 0x80) t then Inr (map of_nat t) else Inl UnicodeError)
      else Inl LookupError)"

definition lower_byte :: "byte \<Rightarrow> byte" where
  "lower_byte c = (if 0x41 \<le> c \<and> c \<le> 0x5A then c + 0x20 else c)"

definition w3_headers_get :: "headers \<Rightarrow> bytes \<Rightarrow> bytes \<Rightarrow> bytes" where
  "w3_headers_get hs name dflt =
     (case filter (\<lambda>(k, v). map lower_byte k = map lower_byte name) hs of
        [] \<Rightarrow> dflt
      | kv # kvs \<Rightarrow> snd (last (kv # kvs)))"

definition w3_to_native_str :: "bytes + string \<Rightarrow> string option \<Rightarrow> string" where
  "w3_to_native_str t enc = (case t of Inl bs \<Rightarrow> map (\<lambda>c. char_of (unat c)) bs | Inr s \<Rightarrow> s)"

definition w3lib :: lib where
  "w3lib = \<lparr>headers_get = w3_headers_get, to_native_str = w3_to_native_str,
            http_content_type_encoding = w3_http_content_type_encoding,
            html_body_declared_encoding = w3_html_body_declared_encoding,
            resolve_encoding = w3_resolve_encoding,
            html_to_unicode = w3_html_to_unicode,
            str_encode = w3_str_encode\<rparr>"

section \<open>Notions used in the statements\<close>

text \<open>Running an operation on the outcome of an earlier one, and reading the value or
  the object an operation leaves; an exception ends the run.\<close>

definition after :: "error + 's \<Rightarrow> ('s \<Rightarrow> error + 'r) \<Rightarrow> error + 'r" where
  "after m f = (case m of Inl e \<Rightarrow> Inl e | Inr s \<Rightarrow> f s)"

definition value_of :: "error + ('v \<times> 's) \<Rightarrow> error + 'v" where
  "value_of m = (case m of Inl e \<Rightarrow> Inl e | Inr (v, s) \<Rightarrow> Inr v)"

definition state_of :: "error + ('v \<times> 's) \<Rightarrow> error + 's" where
  "state_of m = (case m of Inl e \<Rightarrow> Inl e | Inr (v, s) \<Rightarrow> Inr s)"

definition field_of :: "('s \<Rightarrow> 'f) \<Rightarrow> error + 's \<Rightarrow> error + 'f" where
  "field_of f m = (case m of Inl e \<Rightarrow> Inl e | Inr s \<Rightarrow> Inr (f s))"

text \<open>A byte string decodes under a codec when strict decoding returns.\<close>

definition decodable :: "bytes \<Rightarrow> string \<Rightarrow> bool" where
  "decodable t enc = (case bytes_decode t enc of Inl e \<Rightarrow> False | Inr u \<Rightarrow> True)"

text \<open>The declared encoding as a function of the stored inputs: the first true value
  among the override, the header charset and the declaration in the body.\<close>

definition declared_signal :: "lib \<Rightarrow> text_response \<Rightarrow> string option" where
  "declared_signal L self =
     (if truthy (p_encoding self) then p_encoding self
      else if truthy (headers_encoding_method L self) then headers_encoding_method L self
      else body_declared_encoding_method L self)"

text \<open>A memo cell is sound when it is empty or holds what its method computes.\<close>

definition memo_sound :: "lib \<Rightarrow> text_response \<Rightarrow> bool" where
  "memo_sound L self =
     ((case memo_headers_encoding self of
         None \<Rightarrow> True | Some v \<Rightarrow> v = headers_encoding_method L self)
      \<and> (case memo_body_declared_encoding self of
         None \<Rightarrow> True | Some v \<Rightarrow> v = body_declared_encoding_method L self))"

text \<open>The two \<^verbatim>\<open>_cached_\<close> attributes: a stored body encoding comes with a stored text.\<close>

definition paired :: "text_response \<Rightarrow> bool" where
  "paired self = (cached_benc self = None \<or> cached_ubody self \<noteq> None)"

text \<open>The state of the caches of an object that construction and the accessors can
  produce: sound memo cells, a body encoding only with a text, and a text without a body
  encoding only when an encoding is declared.\<close>

definition cache_inv :: "lib \<Rightarrow> text_response \<Rightarrow> bool" where
  "cache_inv L self =
     (memo_sound L self \<and> paired self
      \<and> (cached_ubody self = None \<or> cached_benc self \<noteq> None \<or> truthy (declared_signal L self)))"

text \<open>An object on which encoding resolution has nothing left to compute and returns \<open>v\<close>.\<close>

definition settled :: "lib \<Rightarrow> string \<Rightarrow> text_response \<Rightarrow> bool" where
  "settled L v self =
     (snd (declared_encoding L self) = self
      \<and> (if truthy (fst (declared_encoding L self))
         then fst (declared_encoding L self) = Some v
         else cached_benc self = Some v))"

text \<open>The operations a caller has on a \<^verbatim>\<open>TextResponse\<close> that can change the object, and
  the objects a caller can hold: those \<^verbatim>\<open>TextResponse(...)\<close> returned, after any number of
  completed operations.\<close>

definition public_step :: "lib \<Rightarrow> text_response \<Rightarrow> text_response \<Rightarrow> bool" where
  "public_step L self self' =
     ((\<exists>v. encoding L self = Inr (v, self')) \<or> (\<exists>t. response_text L self = Inr (t, self'))
      \<or> (\<exists>t. body_as_unicode L self = Inr (t, self')) \<or> (\<exists>s. selector L self = Inr (s, self')))"

inductive reachable :: "lib \<Rightarrow> text_response \<Rightarrow> bool" for L :: lib where
  constructed:
    "TextResponse_init L url st hdrs body flgs req enc = Inr self \<Longrightarrow> reachable L self"
| stepped: "reachable L self \<Longrightarrow> public_step L self self' \<Longrightarrow> reachable L self'"

text \<open>\<^verbatim>\<open>TextResponse('http://example.com/a/b', body=body, encoding=enc)\<close> with the instance
  of the collaborators.\<close>

definition example_response :: "pybody \<Rightarrow> string option \<Rightarrow> error + text_response" where
  "example_response body enc =
     TextResponse_init w3lib (UrlStr ''http://example.com/a/b'') 200 None body None None enc"

text \<open>The two objects these calls return: without an override for the body \<^verbatim>\<open>b'abc'\<close>,
  and with the override \<^verbatim>\<open>'utf-8'\<close> for any bytes body.\<close>

definition plain_object :: text_response where
  "plain_object =
     \<lparr>headers = [], status = 200, p_body = [0x61, 0x62, 0x63],
      p_url = ''http://example.com/a/b'', request = None, flags = [],
      p_encoding = None, cached_benc = Some ''cp1252'', cached_ubody = Some [97, 98, 99],
      cached_selector = None, memo_headers_encoding = Some None,
      memo_body_declared_encoding = Some None\<rparr>"

definition utf8_object :: "bytes \<Rightarrow> text_response" where
  "utf8_object body =
     \<lparr>headers = [], status = 200, p_body = body,
      p_url = ''http://example.com/a/b'', request = None, flags = [],
      p_encoding = Some ''utf-8'', cached_benc = None, cached_ubody = None,
      cached_selector = None, memo_headers_encoding = None,
      memo_body_declared_encoding = None\<rparr>"

text \<open>The object returned for a bytes body when the call also passes the header
  \<^verbatim>\<open>Content-Type: text/html; charset=UTF-8\<close> and no override.\<close>

definition utf8_header :: headers where
  "utf8_header = [(bytes_of ''Content-Type'', bytes_of ''text/html; charset=UTF-8'')]"

definition header_object :: "bytes \<Rightarrow> text_response" where
  "header_object body =
     \<lparr>headers = utf8_header, status = 200, p_body = body,
      p_url = ''http://example.com/a/b'', request = None, flags = [],
      p_encoding = None, cached_benc = None, cached_ubody = None,
      cached_selector = None, memo_headers_encoding = Some (Some ''utf-8''),
      memo_body_declared_encoding = None\<rparr>"

section \<open>The detector\<close>

lemma decode_utf_8_error: "decode_utf_8 t = Inl e \<Longrightarrow> e = UnicodeError"
  by (induction t arbitrary: e rule: decode_utf_8.induct)
     (auto split: prod.splits option.splits sum.splits)

lemma candidate_error:
  "bytes_decode t enc = Inl e \<Longrightarrow> enc = ''ascii'' \<or> enc = ''utf-8'' \<or> enc = ''cp1252''
     \<Longrightarrow> e = UnicodeError"
  by (auto simp: bytes_decode_def decode_ascii_def decode_cp1252_def
           dest: decode_utf_8_error split: if_splits)

lemma auto_detect_step:
  "enc = ''ascii'' \<or> enc = ''utf-8'' \<or> enc = ''cp1252'' \<Longrightarrow>
   auto_detect_loop L t (enc # encs) =
     (if decodable t enc then Inr (resolve_encoding L enc) else auto_detect_loop L t encs)"
  using candidate_error [of t enc]
  by (cases "bytes_decode t enc") (auto simp: decodable_def split: error.splits)

lemma auto_detect_fun_eq:
  "auto_detect_fun L t =
     Inr (if decodable t ''ascii'' then resolve_encoding L ''ascii''
          else if decodable t ''utf-8'' then resolve_encoding L ''utf-8''
          else if decodable t ''cp1252'' then resolve_encoding L ''cp1252''
          else None)"
  by (simp add: auto_detect_fun_def DEFAULT_ENCODING_def auto_detect_step
           del: auto_detect_loop.simps(2))

section \<open>Encoding resolution: the cascade and what it leaves\<close>

lemma headers_encoding_eq:
  "headers_encoding L r =
     (case memo_headers_encoding r of
        Some v \<Rightarrow> (v, r)
      | None \<Rightarrow> (headers_encoding_method L r,
                 r\<lparr>memo_headers_encoding := Some (headers_encoding_method L r)\<rparr>))"
  by (simp add: headers_encoding_def memoizemethod_noargs_def Let_def split: option.split)

lemma body_declared_encoding_eq:
  "body_declared_encoding L r =
     (case memo_body_declared_encoding r of
        Some v \<Rightarrow> (v, r)
      | None \<Rightarrow> (body_declared_encoding_method L r,
                 r\<lparr>memo_body_declared_encoding := Some (body_declared_encoding_method L r)\<rparr>))"
  by (simp add: body_declared_encoding_def memoizemethod_noargs_def Let_def split: option.split)

lemma method_update [simp]:
  "headers_encoding_method L (memo_headers_encoding_update f r) = headers_encoding_method L r"
  "headers_encoding_method L (memo_body_declared_encoding_update g r) = headers_encoding_method L r"
  "body_declared_encoding_method L (memo_headers_encoding_update f r) = body_declared_encoding_method L r"
  "body_declared_encoding_method L (memo_body_declared_encoding_update g r) = body_declared_encoding_method L r"
  "headers_encoding_method L (cached_benc_update f1 r) = headers_encoding_method L r"
  "headers_encoding_method L (cached_ubody_update f2 r) = headers_encoding_method L r"
  "headers_encoding_method L (cached_selector_update f3 r) = headers_encoding_method L r"
  "body_declared_encoding_method L (cached_benc_update f1 r) = body_declared_encoding_method L r"
  "body_declared_encoding_method L (cached_ubody_update f2 r) = body_declared_encoding_method L r"
  "body_declared_encoding_method L (cached_selector_update f3 r) = body_declared_encoding_method L r"
  by (simp_all add: headers_encoding_method_def body_declared_encoding_method_def content_type_def)

lemma declared_encoding_eq:
  "declared_encoding L r =
     (if truthy (p_encoding r) then (p_encoding r, r)
      else case memo_headers_encoding r of
        Some h \<Rightarrow>
          if truthy h then (h, r)
          else (case memo_body_declared_encoding r of
                  Some d \<Rightarrow> (d, r)
                | None \<Rightarrow> (body_declared_encoding_method L r,
                     r\<lparr>memo_body_declared_encoding := Some (body_declared_encoding_method L r)\<rparr>))
      | None \<Rightarrow>
          if truthy (headers_encoding_method L r)
          then (headers_encoding_method L r,
                r\<lparr>memo_headers_encoding := Some (headers_encoding_method L r)\<rparr>)
          else (case memo_body_declared_encoding r of
                  Some d \<Rightarrow> (d, r\<lparr>memo_headers_encoding := Some (headers_encoding_method L r)\<rparr>)
                | None \<Rightarrow> (body_declared_encoding_method L r,
                     r\<lparr>memo_headers_encoding := Some (headers_encoding_method L r),
                       memo_body_declared_encoding := Some (body_declared_encoding_method L r)\<rparr>)))"
  by (simp add: declared_encoding_def headers_encoding_eq body_declared_encoding_eq
           split: option.split)

lemma declared_encoding_idem:
  assumes "declared_encoding L r = (d, r1)"
  shows "declared_encoding L r1 = (d, r1)"
proof (cases "truthy (p_encoding r)")
  case True
  with assms show ?thesis by (auto simp: declared_encoding_eq)
next
  case False
  show ?thesis
  proof (cases "memo_headers_encoding r")
    case None
    show ?thesis
    proof (cases "memo_body_declared_encoding r")
      case nd: None
      from assms False None nd show ?thesis
        by (cases "truthy (headers_encoding_method L r)") (auto simp: declared_encoding_eq)
    next
      case (Some dd)
      from assms False None Some show ?thesis
        by (cases "truthy (headers_encoding_method L r)") (auto simp: declared_encoding_eq)
    qed
  next
    case (Some h)
    show ?thesis
    proof (cases "memo_body_declared_encoding r")
      case nd: None
      from assms False Some nd show ?thesis
        by (cases "truthy h") (auto simp: declared_encoding_eq)
    next
      case sd: (Some dd)
      from assms False Some sd show ?thesis
        by (cases "truthy h") (auto simp: declared_encoding_eq)
    qed
  qed
qed

lemma declared_encoding_cached:
  "declared_encoding L (r\<lparr>cached_benc := x, cached_ubody := y\<rparr>) =
     (fst (declared_encoding L r), (snd (declared_encoding L r))\<lparr>cached_benc := x, cached_ubody := y\<rparr>)"
  "declared_encoding L (r\<lparr>cached_ubody := y\<rparr>) =
     (fst (declared_encoding L r), (snd (declared_encoding L r))\<lparr>cached_ubody := y\<rparr>)"
  "declared_encoding L (r\<lparr>cached_benc := x\<rparr>) =
     (fst (declared_encoding L r), (snd (declared_encoding L r))\<lparr>cached_benc := x\<rparr>)"
  "declared_encoding L (r\<lparr>cached_selector := z\<rparr>) =
     (fst (declared_encoding L r), (snd (declared_encoding L r))\<lparr>cached_selector := z\<rparr>)"
  by (simp_all add: declared_encoding_eq split: option.split)

lemma declared_encoding_fields:
  "cached_benc (snd (declared_encoding L r)) = cached_benc r"
  "cached_ubody (snd (declared_encoding L r)) = cached_ubody r"
  "cached_selector (snd (declared_encoding L r)) = cached_selector r"
  "p_encoding (snd (declared_encoding L r)) = p_encoding r"
  "p_body (snd (declared_encoding L r)) = p_body r"
  "p_url (snd (declared_encoding L r)) = p_url r"
  "headers (snd (declared_encoding L r)) = headers r"
  "status (snd (declared_encoding L r)) = status r"
  "request (snd (declared_encoding L r)) = request r"
  "flags (snd (declared_encoding L r)) = flags r"
  by (simp_all add: declared_encoding_eq split: option.split)

lemma declared_encoding_signal:
  "memo_sound L r \<Longrightarrow> fst (declared_encoding L r) = declared_signal L r"
  "memo_sound L r \<Longrightarrow> memo_sound L (snd (declared_encoding L r))"
  by (auto simp: declared_encoding_eq declared_signal_def memo_sound_def split: option.splits)

lemma declared_encoding_write_once:
  "memo_headers_encoding r = Some x \<Longrightarrow> memo_headers_encoding (snd (declared_encoding L r)) = Some x"
  "memo_body_declared_encoding r = Some y \<Longrightarrow> memo_body_declared_encoding (snd (declared_encoding L r)) = Some y"
  by (auto simp: declared_encoding_eq split: option.splits)

lemma signal_snd_declared [simp]:
  "declared_signal L (snd (declared_encoding L r)) = declared_signal L r"
  "content_type L (snd (declared_encoding L r)) = content_type L r"
  by (simp_all add: declared_encoding_eq declared_signal_def content_type_def split: option.split)

lemma encoding_eq:
  "encoding L r =
     (if truthy (fst (declared_encoding L r))
      then Inr (the (fst (declared_encoding L r)), snd (declared_encoding L r))
      else body_inferred_encoding L (snd (declared_encoding L r)))"
  by (simp add: encoding_def split: prod.split)

lemma declared_encoding_idem':
  "declared_encoding L (snd (declared_encoding L r)) = declared_encoding L r"
  using declared_encoding_idem [of L r] by (cases "declared_encoding L r") simp

lemma settled_encoding: "settled L v r \<Longrightarrow> encoding L r = Inr (v, r)"
  by (auto simp: settled_def encoding_eq body_inferred_encoding_def split: if_splits)

lemma encoding_settled:
  assumes "encoding L r = Inr (v, r1)"
  shows "settled L v r1"
proof (cases "truthy (fst (declared_encoding L r))")
  case True
  with assms have "r1 = snd (declared_encoding L r)" "Some v = fst (declared_encoding L r)"
    by (cases "fst (declared_encoding L r)"; simp add: encoding_eq)+
  with True show ?thesis by (simp add: settled_def declared_encoding_idem')
next
  case False
  with assms have bi: "body_inferred_encoding L (snd (declared_encoding L r)) = Inr (v, r1)"
    by (simp add: encoding_eq)
  show ?thesis
  proof (cases "cached_benc (snd (declared_encoding L r))")
    case None
    with bi obtain u where "r1 = (snd (declared_encoding L r))\<lparr>cached_benc := Some v, cached_ubody := Some u\<rparr>"
      by (auto simp: body_inferred_encoding_def split: sum.splits)
    with False show ?thesis
      by (simp add: settled_def declared_encoding_cached declared_encoding_idem')
  next
    case (Some x)
    with bi have "r1 = snd (declared_encoding L r)" "x = v"
      by (simp_all add: body_inferred_encoding_def)
    with False Some show ?thesis by (simp add: settled_def declared_encoding_idem')
  qed
qed

lemma settled_update:
  "settled L v r \<Longrightarrow> settled L v (r\<lparr>cached_ubody := y\<rparr>)"
  "settled L v r \<Longrightarrow> settled L v (r\<lparr>cached_selector := z\<rparr>)"
  by (simp_all add: settled_def declared_encoding_cached)

section \<open>The text property\<close>

lemma settled_text:
  "settled L v r \<Longrightarrow> cached_ubody r = Some t \<Longrightarrow> response_text L r = Inr (t, r)"
  by (simp add: response_text_def settled_encoding)

lemma text_result:
  assumes "response_text L r = Inr (t, r2)"
  shows "\<exists>v r1. encoding L r = Inr (v, r1) \<and> settled L v r2 \<and> cached_ubody r2 = Some t
           \<and> (r2 = r1 \<or> (cached_ubody r1 = None \<and> r2 = r1\<lparr>cached_ubody := Some t\<rparr>))"
proof (cases "encoding L r")
  case (Inl e)
  with assms show ?thesis by (simp add: response_text_def)
next
  case (Inr p)
  obtain v r1 where p: "p = (v, r1)" by (cases p)
  with Inr have s: "settled L v r1" by (simp add: encoding_settled)
  show ?thesis
  proof (cases "cached_ubody r1")
    case None
    with assms Inr p have "r2 = r1\<lparr>cached_ubody := Some t\<rparr>"
      by (auto simp: response_text_def split: sum.splits)
    with Inr p s None show ?thesis by (simp add: settled_update)
  next
    case (Some u)
    with assms Inr p have "r2 = r1" "u = t" by (simp_all add: response_text_def)
    with Inr p s Some show ?thesis by simp
  qed
qed

lemma text_idem: "response_text L r = Inr (t, r2) \<Longrightarrow> response_text L r2 = Inr (t, r2)"
  using text_result [of L r t r2] by (auto intro: settled_text)

lemma encoding_idem: "encoding L r = Inr (v, r1) \<Longrightarrow> encoding L r1 = Inr (v, r1)"
  by (simp add: encoding_settled settled_encoding)

lemma text_after_encoding:
  "encoding L r = Inr (v, r1) \<Longrightarrow> response_text L r1 = response_text L r"
  by (simp add: response_text_def encoding_idem)

lemma encoding_after_text:
  assumes "encoding L r = Inr (v, r1)" "response_text L r = Inr (t, r2)"
  shows "encoding L r2 = Inr (v, r2)"
  using text_result [OF assms(2)] assms(1) by (auto intro: settled_encoding)

lemma selector_result:
  assumes "selector L r = Inr (sel, r3)"
  shows "r3 = r \<or> (\<exists>t r2. response_text L r = Inr (t, r2)
            \<and> r3 = r2\<lparr>cached_selector := Some sel\<rparr>)"
  using assms by (auto simp: selector_def split: option.splits sum.splits)

section \<open>What the accessors change\<close>

lemma encoding_shape:
  assumes "encoding L r = Inr (v, r1)"
  shows "r1 = snd (declared_encoding L r)
         \<or> (cached_benc r = None \<and> \<not> truthy (fst (declared_encoding L r))
            \<and> (\<exists>u. r1 = (snd (declared_encoding L r))\<lparr>cached_benc := Some v, cached_ubody := Some u\<rparr>))"
  using assms
  by (auto simp: encoding_eq body_inferred_encoding_def declared_encoding_fields
           split: if_splits option.splits sum.splits)

lemma memo_sound_update [simp]:
  "memo_sound L (r\<lparr>cached_benc := x\<rparr>) = memo_sound L r"
  "memo_sound L (r\<lparr>cached_ubody := y\<rparr>) = memo_sound L r"
  "memo_sound L (r\<lparr>cached_selector := z\<rparr>) = memo_sound L r"
  by (simp_all add: memo_sound_def split: option.split)

lemma declared_signal_update [simp]:
  "declared_signal L (r\<lparr>cached_benc := x\<rparr>) = declared_signal L r"
  "declared_signal L (r\<lparr>cached_ubody := y\<rparr>) = declared_signal L r"
  "declared_signal L (r\<lparr>cached_selector := z\<rparr>) = declared_signal L r"
  by (simp_all add: declared_signal_def)

lemma encoding_cache_inv:
  assumes "cache_inv L r" "encoding L r = Inr (v, r1)"
  shows "cache_inv L r1"
  using encoding_shape [OF assms(2)] assms(1)
  by (auto simp: cache_inv_def paired_def declared_encoding_fields declared_encoding_signal)

lemma encoding_write_once:
  assumes "cache_inv L r" "encoding L r = Inr (v, r1)"
  shows "cached_benc r = Some x \<Longrightarrow> cached_benc r1 = Some x"
    and "cached_ubody r = Some y \<Longrightarrow> cached_ubody r1 = Some y"
    and "memo_headers_encoding r = Some mh \<Longrightarrow> memo_headers_encoding r1 = Some mh"
    and "memo_body_declared_encoding r = Some md \<Longrightarrow> memo_body_declared_encoding r1 = Some md"
  using encoding_shape [OF assms(2)] assms(1)
  by (auto simp: cache_inv_def paired_def declared_encoding_fields declared_encoding_signal
                 declared_encoding_write_once)

lemma encoding_fields:
  assumes "encoding L r = Inr (v, r1)"
  shows "p_encoding r1 = p_encoding r" "p_body r1 = p_body r" "p_url r1 = p_url r"
    "headers r1 = headers r" "status r1 = status r" "request r1 = request r"
    "flags r1 = flags r" "cached_selector r1 = cached_selector r"
  using encoding_shape [OF assms] by (auto simp: declared_encoding_fields)

lemma settled_signal:
  "settled L v r \<Longrightarrow> memo_sound L r \<Longrightarrow>
     cached_benc r \<noteq> None \<or> truthy (declared_signal L r)"
  by (auto simp: settled_def declared_encoding_signal split: if_splits)

lemma text_cache_inv:
  assumes "cache_inv L r" "response_text L r = Inr (t, r2)"
  shows "cache_inv L r2"
proof -
  from text_result [OF assms(2)] obtain v r1 where
    e: "encoding L r = Inr (v, r1)" and s: "settled L v r2" and
    r2: "r2 = r1 \<or> (cached_ubody r1 = None \<and> r2 = r1\<lparr>cached_ubody := Some t\<rparr>)"
    by blast
  have i1: "cache_inv L r1" using assms(1) e by (rule encoding_cache_inv)
  from r2 show ?thesis
  proof
    assume "r2 = r1" with i1 show ?thesis by simp
  next
    assume a: "cached_ubody r1 = None \<and> r2 = r1\<lparr>cached_ubody := Some t\<rparr>"
    with i1 have m: "memo_sound L r2" by (simp add: cache_inv_def)
    from settled_signal [OF s m] a i1 show ?thesis
      by (auto simp: cache_inv_def paired_def)
  qed
qed

lemma text_write_once:
  assumes "cache_inv L r" "response_text L r = Inr (t, r2)"
  shows "cached_benc r = Some x \<Longrightarrow> cached_benc r2 = Some x"
    and "cached_ubody r = Some y \<Longrightarrow> cached_ubody r2 = Some y"
    and "memo_headers_encoding r = Some mh \<Longrightarrow> memo_headers_encoding r2 = Some mh"
    and "memo_body_declared_encoding r = Some md \<Longrightarrow> memo_body_declared_encoding r2 = Some md"
proof -
  from text_result [OF assms(2)] obtain v r1 where
    e: "encoding L r = Inr (v, r1)" and
    r2: "r2 = r1 \<or> (cached_ubody r1 = None \<and> r2 = r1\<lparr>cached_ubody := Some t\<rparr>)"
    by blast
  note w = encoding_write_once [OF assms(1) e]
  show "cached_benc r = Some x \<Longrightarrow> cached_benc r2 = Some x" using r2 w(1) by auto
  show "cached_ubody r = Some y \<Longrightarrow> cached_ubody r2 = Some y" using r2 w(2) by auto
  show "memo_headers_encoding r = Some mh \<Longrightarrow> memo_headers_encoding r2 = Some mh"
    using r2 w(3) by auto
  show "memo_body_declared_encoding r = Some md \<Longrightarrow> memo_body_declared_encoding r2 = Some md"
    using r2 w(4) by auto
qed

lemma text_fields:
  assumes "response_text L r = Inr (t, r2)"
  shows "p_encoding r2 = p_encoding r" "p_body r2 = p_body r" "p_url r2 = p_url r"
    "headers r2 = headers r" "status r2 = status r" "request r2 = request r"
    "flags r2 = flags r" "cached_selector r2 = cached_selector r"
proof -
  from text_result [OF assms] obtain v r1 where
    e: "encoding L r = Inr (v, r1)" and
    r2: "r2 = r1 \<or> (cached_ubody r1 = None \<and> r2 = r1\<lparr>cached_ubody := Some t\<rparr>)"
    by blast
  note f = encoding_fields [OF e]
  from r2 f show "p_encoding r2 = p_encoding r" "p_body r2 = p_body r" "p_url r2 = p_url r"
    "headers r2 = headers r" "status r2 = status r" "request r2 = request r"
    "flags r2 = flags r" "cached_selector r2 = cached_selector r"
    by auto
qed

section \<open>Construction\<close>

lemma set_body_result:
  assumes "TextResponse_set_body L body self = Inr self1"
  shows "\<exists>bs. self1 = self\<lparr>p_body := bs\<rparr>
           \<and> (body = BodyNone \<longrightarrow> bs = [])
           \<and> (\<forall>x. body = BodyBytes x \<longrightarrow> bs = x)
           \<and> (\<forall>t. body = BodyText t \<longrightarrow>
                 (\<exists>enc. p_encoding self = Some enc \<and> str_encode L t enc = Inr bs))"
  using assms
  by (cases body)
     (auto simp: TextResponse_set_body_def Response_set_body_def Let_def
           split: option.splits sum.splits)

lemma set_url_result:
  assumes "TextResponse_set_url L url self = Inr self2"
  shows "\<exists>u v r1. url = UrlStr u \<and> encoding L self = Inr (v, r1)
           \<and> self2 = r1\<lparr>p_url := to_native_str L (Inr u) (Some v)\<rparr>"
  using assms
  by (cases url)
     (auto simp: TextResponse_set_url_def Response_set_url_def url_type_error_def
           split: sum.splits)

lemma before_setters_fields [simp]:
  "headers (before_setters hdrs st enc) = (case hdrs of None \<Rightarrow> [] | Some h \<Rightarrow> h)"
  "status (before_setters hdrs st enc) = st"
  "p_encoding (before_setters hdrs st enc) = enc"
  "cached_benc (before_setters hdrs st enc) = None"
  "cached_ubody (before_setters hdrs st enc) = None"
  "cached_selector (before_setters hdrs st enc) = None"
  "memo_headers_encoding (before_setters hdrs st enc) = None"
  "memo_body_declared_encoding (before_setters hdrs st enc) = None"
  by (simp_all add: before_setters_def)

lemma init_result:
  assumes "TextResponse_init L url st hdrs body flgs req enc = Inr r"
  shows "\<exists>self1 u v r1.
           TextResponse_set_body L body (before_setters hdrs st enc) = Inr self1
           \<and> url = UrlStr u \<and> encoding L self1 = Inr (v, r1)
           \<and> r = r1\<lparr>p_url := to_native_str L (Inr u) (Some v), request := req,
                       flags := (case flgs of None \<Rightarrow> [] | Some f \<Rightarrow> f)\<rparr>"
proof -
  from assms obtain self1 self2 where
    a: "TextResponse_set_body L body (before_setters hdrs st enc) = Inr self1" and
    c: "TextResponse_set_url L url self1 = Inr self2" and
    r: "r = self2\<lparr>request := req, flags := (case flgs of None \<Rightarrow> [] | Some f \<Rightarrow> f)\<rparr>"
    by (auto simp: TextResponse_init_def split: sum.splits)
  from set_url_result [OF c] a r show ?thesis by auto
qed

lemma method_other_update [simp]:
  "headers_encoding_method L (r\<lparr>p_url := u\<rparr>) = headers_encoding_method L r"
  "headers_encoding_method L (r\<lparr>request := q\<rparr>) = headers_encoding_method L r"
  "headers_encoding_method L (r\<lparr>flags := f\<rparr>) = headers_encoding_method L r"
  "body_declared_encoding_method L (r\<lparr>p_url := u\<rparr>) = body_declared_encoding_method L r"
  "body_declared_encoding_method L (r\<lparr>request := q\<rparr>) = body_declared_encoding_method L r"
  "body_declared_encoding_method L (r\<lparr>flags := f\<rparr>) = body_declared_encoding_method L r"
  by (simp_all add: headers_encoding_method_def body_declared_encoding_method_def content_type_def)

lemma cache_inv_other_update [simp]:
  "cache_inv L (r\<lparr>p_url := u\<rparr>) = cache_inv L r"
  "cache_inv L (r\<lparr>request := q\<rparr>) = cache_inv L r"
  "cache_inv L (r\<lparr>flags := f\<rparr>) = cache_inv L r"
  by (simp_all add: cache_inv_def memo_sound_def paired_def declared_signal_def
        split: option.split)

lemma cache_inv_empty:
  "cached_benc r = None \<Longrightarrow> cached_ubody r = None \<Longrightarrow> memo_headers_encoding r = None
     \<Longrightarrow> memo_body_declared_encoding r = None \<Longrightarrow> cache_inv L r"
  by (simp add: cache_inv_def memo_sound_def paired_def)

lemma init_cache_inv:
  assumes "TextResponse_init L url st hdrs body flgs req enc = Inr r"
  shows "cache_inv L r"
proof -
  from init_result [OF assms] obtain self1 u v r1 where
    a: "TextResponse_set_body L body (before_setters hdrs st enc) = Inr self1" and
    e: "encoding L self1 = Inr (v, r1)" and
    r: "r = r1\<lparr>p_url := to_native_str L (Inr u) (Some v), request := req,
                 flags := (case flgs of None \<Rightarrow> [] | Some f \<Rightarrow> f)\<rparr>"
    by blast
  from set_body_result [OF a] have "cache_inv L self1"
    by (auto intro!: cache_inv_empty)
  then have "cache_inv L r1" using e by (rule encoding_cache_inv)
  with r show ?thesis by simp
qed

section \<open>The instance on plain inputs\<close>

lemma w3lib_fields [simp]:
  "headers_get w3lib = w3_headers_get"
  "to_native_str w3lib = w3_to_native_str"
  "http_content_type_encoding w3lib = w3_http_content_type_encoding"
  "html_body_declared_encoding w3lib = w3_html_body_declared_encoding"
  "resolve_encoding w3lib = w3_resolve_encoding"
  "html_to_unicode w3lib = w3_html_to_unicode"
  "str_encode w3lib = w3_str_encode"
  by (simp_all add: w3lib_def)

lemma w3_resolve_names:
  "w3_resolve_encoding ''ascii'' = Some ''cp1252''"
  "w3_resolve_encoding ''utf-8'' = Some ''utf-8''"
  "w3_resolve_encoding ''cp1252'' = Some ''cp1252''"
  by (simp_all add: w3_resolve_encoding_def known_encodings_def lower_char_def)

lemma w3_no_header:
  "headers r = [] \<Longrightarrow> headers_encoding_method w3lib r = None"
  by (simp add: headers_encoding_method_def content_type_def w3_headers_get_def
        w3_to_native_str_def w3_http_content_type_encoding_def)

lemma w3_no_declaration: "body_declared_encoding_method w3lib r = None"
  by (simp add: body_declared_encoding_method_def w3_html_body_declared_encoding_def)

lemma w3_charset_utf8: "w3_http_content_type_encoding ''charset=utf-8'' = Some ''utf-8''"
  by (simp add: w3_http_content_type_encoding_def lower_char_def charset_char_def
        w3_resolve_encoding_def known_encodings_def)

lemma w3_charset_empty: "w3_http_content_type_encoding ''charset='' = None"
  by (simp add: w3_http_content_type_encoding_def lower_char_def charset_char_def)

lemma bytes_abc: "bytes_of ''abc'' = [0x61, 0x62, 0x63]"
  by (simp add: bytes_of_def)

lemma w3_detect_abc: "auto_detect_fun w3lib [0x61, 0x62, 0x63] = Inr (Some ''cp1252'')"
  by (simp add: auto_detect_fun_eq decodable_def bytes_decode_def decode_ascii_def
        w3_resolve_names)

lemma w3_infer_abc:
  "w3_html_to_unicode [] [0x61, 0x62, 0x63] ''ascii'' (Some (auto_detect_fun w3lib))
     = Inr (''cp1252'', [97, 98, 99])"
  by (simp add: w3_html_to_unicode_def w3_http_content_type_encoding_def read_bom_def
        BOM_UTF8_def w3_html_body_declared_encoding_def w3_detect_abc to_unicode_def
        cp1252_char_def)

lemma w3_utf8_abc:
  "w3_html_to_unicode ''charset=utf-8'' [0x61, 0x62, 0x63] ''utf8'' None
     = Inr (''utf-8'', [97, 98, 99])"
  by (simp add: w3_html_to_unicode_def w3_charset_utf8 read_bom_def BOM_UTF8_def to_unicode_def)

lemma w3_utf8_ff:
  "w3_html_to_unicode ''charset=utf-8'' [0xFF] ''utf8'' None = Inr (''utf-8'', [0xFFFD])"
  by (simp add: w3_html_to_unicode_def w3_charset_utf8 read_bom_def BOM_UTF8_def to_unicode_def)

lemma w3_utf8_bom:
  "w3_html_to_unicode ''charset=utf-8'' [0xEF, 0xBB, 0xBF] ''utf8'' None = Inr (''utf-8'', [])"
  by (simp add: w3_html_to_unicode_def w3_charset_utf8 read_bom_def BOM_UTF8_def to_unicode_def)

lemma w3_encode_bom: "w3_str_encode [0xFEFF] ''utf-8'' = Inr [0xEF, 0xBB, 0xBF]"
  by (simp add: w3_str_encode_def)

section \<open>Objects with an override, and plain objects of the instance\<close>

lemma init_bytes:
  "TextResponse_init L (UrlStr u) st hdrs (BodyBytes bs) flgs req enc =
     (case encoding L ((before_setters hdrs st enc)\<lparr>p_body := bs\<rparr>) of
        Inl e \<Rightarrow> Inl e
      | Inr (v, r1) \<Rightarrow>
          Inr (r1\<lparr>p_url := to_native_str L (Inr u) (Some v), request := req,
                   flags := (case flgs of None \<Rightarrow> [] | Some f \<Rightarrow> f)\<rparr>))"
  by (simp add: TextResponse_init_def TextResponse_set_body_def Response_set_body_def
        TextResponse_set_url_def Let_def split: sum.split)

lemma encoding_override:
  "truthy (p_encoding r) \<Longrightarrow> encoding L r = Inr (the (p_encoding r), r)"
  by (simp add: encoding_eq declared_encoding_eq)

lemma text_override:
  "truthy (p_encoding r) \<Longrightarrow> cached_ubody r = None \<Longrightarrow>
   response_text L r =
     (case html_to_unicode L (''charset='' @ the (p_encoding r)) (p_body r) ''utf8'' None of
        Inl e \<Rightarrow> Inl e
      | Inr (enc, ubody) \<Rightarrow> Inr (ubody, r\<lparr>cached_ubody := Some ubody\<rparr>))"
  by (simp add: response_text_def encoding_override)

lemma w3_plain_encoding:
  assumes "headers r = []" "\<not> truthy (p_encoding r)" "memo_headers_encoding r = None"
    "memo_body_declared_encoding r = None" "cached_benc r = None"
  shows "encoding w3lib r =
     (case w3_html_to_unicode [] (p_body r) ''ascii'' (Some (auto_detect_fun w3lib)) of
        Inl e \<Rightarrow> Inl e
      | Inr (benc, ubody) \<Rightarrow>
          Inr (benc, r\<lparr>memo_headers_encoding := Some None,
                        memo_body_declared_encoding := Some None,
                        cached_benc := Some benc, cached_ubody := Some ubody\<rparr>))"
  using assms
  by (simp add: encoding_eq declared_encoding_eq w3_no_header w3_no_declaration
        body_inferred_encoding_def content_type_def w3_headers_get_def w3_to_native_str_def
        DEFAULT_ENCODING_def split: sum.split)

section \<open>The example objects\<close>

lemma example_plain: "example_response (BodyBytes (bytes_of ''abc'')) None = Inr plain_object"
  by (simp add: example_response_def init_bytes bytes_abc w3_plain_encoding w3_infer_abc
        w3_to_native_str_def plain_object_def before_setters_def)

lemma example_utf8: "example_response (BodyBytes body) (Some ''utf-8'') = Inr (utf8_object body)"
  by (simp add: example_response_def init_bytes encoding_override
        w3_to_native_str_def utf8_object_def before_setters_def)

lemma utf8_object_fields [simp]:
  "p_encoding (utf8_object body) = Some ''utf-8''"
  "p_body (utf8_object body) = body"
  "cached_benc (utf8_object body) = None"
  "cached_ubody (utf8_object body) = None"
  by (simp_all add: utf8_object_def)

lemma utf8_object_text:
  "response_text w3lib (utf8_object body) =
     (case w3_html_to_unicode ''charset=utf-8'' body ''utf8'' None of
        Inl e \<Rightarrow> Inl e
      | Inr (enc, ubody) \<Rightarrow> Inr (ubody, (utf8_object body)\<lparr>cached_ubody := Some ubody\<rparr>))"
  by (simp add: text_override)

section \<open>Objects a caller can hold\<close>

lemma cache_inv_selector_update [simp]:
  "cache_inv L (r\<lparr>cached_selector := z\<rparr>) = cache_inv L r"
  by (simp add: cache_inv_def paired_def)

lemma public_step_cache_inv:
  assumes "cache_inv L r" "public_step L r r'"
  shows "cache_inv L r'"
proof -
  from assms(2) consider
      v where "encoding L r = Inr (v, r')"
    | t where "response_text L r = Inr (t, r')"
    | s where "selector L r = Inr (s, r')"
    by (auto simp: public_step_def body_as_unicode_def)
  then show ?thesis
  proof cases
    case 1 with assms(1) show ?thesis by (rule encoding_cache_inv)
  next
    case 2 with assms(1) show ?thesis by (rule text_cache_inv)
  next
    case 3
    from selector_result [OF 3] assms(1) show ?thesis
      by (auto dest: text_cache_inv)
  qed
qed

lemma reachable_cache_inv: "reachable L r \<Longrightarrow> cache_inv L r"
  by (induction rule: reachable.induct) (auto intro: init_cache_inv public_step_cache_inv)


lemma public_step_settled:
  assumes "settled L v r" "public_step L r r'"
  shows "settled L v r'"
proof -
  have e: "encoding L r = Inr (v, r)" using assms(1) by (rule settled_encoding)
  from assms(2) consider
      v' where "encoding L r = Inr (v', r')"
    | t where "response_text L r = Inr (t, r')"
    | sel where "selector L r = Inr (sel, r')"
    by (auto simp: public_step_def body_as_unicode_def)
  then show ?thesis
  proof cases
    case 1 with e assms(1) show ?thesis by simp
  next
    case 2
    from text_result [OF 2] e show ?thesis by auto
  next
    case 3
    from selector_result [OF 3] show ?thesis
    proof
      assume "r' = r" with assms(1) show ?thesis by simp
    next
      assume "\<exists>t r2. response_text L r = Inr (t, r2) \<and> r' = r2\<lparr>cached_selector := Some sel\<rparr>"
      then obtain t r2 where t: "response_text L r = Inr (t, r2)"
        and r': "r' = r2\<lparr>cached_selector := Some sel\<rparr>" by blast
      from text_result [OF t] e have "settled L v r2" by auto
      with r' show ?thesis by (simp add: settled_update)
    qed
  qed
qed

lemma public_step_ubody:
  assumes "settled L v r" "cached_ubody r = Some t" "public_step L r r'"
  shows "cached_ubody r' = Some t"
proof -
  have e: "encoding L r = Inr (v, r)" using assms(1) by (rule settled_encoding)
  have x: "response_text L r = Inr (t, r)" using assms(1,2) by (rule settled_text)
  from assms(3) consider
      v' where "encoding L r = Inr (v', r')"
    | t' where "response_text L r = Inr (t', r')"
    | sel where "selector L r = Inr (sel, r')"
    by (auto simp: public_step_def body_as_unicode_def)
  then show ?thesis
  proof cases
    case 1 with e assms(2) show ?thesis by simp
  next
    case 2 with x assms(2) show ?thesis by simp
  next
    case 3
    from selector_result [OF 3] x assms(2) show ?thesis by auto
  qed
qed

lemma steps_settled:
  "(public_step L)\<^sup>*\<^sup>* r s \<Longrightarrow> settled L v r \<Longrightarrow> settled L v s"
  by (induction rule: rtranclp_induct) (auto intro: public_step_settled)

lemma steps_ubody:
  "(public_step L)\<^sup>*\<^sup>* r s \<Longrightarrow> settled L v r \<Longrightarrow> cached_ubody r = Some t
     \<Longrightarrow> cached_ubody s = Some t"
proof (induction rule: rtranclp_induct)
  case base
  then show ?case by simp
next
  case (step y z)
  then show ?case using steps_settled [of L r y v] by (auto intro: public_step_ubody)
qed

section \<open>Repeated access\<close>

text \<open>
  Claim C6. Once \<^verbatim>\<open>encoding\<close> has returned a value, it returns the same value, and leaves
  the object alone, after any further completed operations; the same holds for \<^verbatim>\<open>text\<close>;
  and \<^verbatim>\<open>text\<close> read after \<^verbatim>\<open>encoding\<close> is \<^verbatim>\<open>text\<close> read first.
\<close>

theorem accessors_stable:
  "(encoding L self = Inr (v, self1) \<longrightarrow> (public_step L)\<^sup>*\<^sup>* self1 s
      \<longrightarrow> encoding L s = Inr (v, s))
   \<and> (response_text L self = Inr (t, self2) \<longrightarrow> (public_step L)\<^sup>*\<^sup>* self2 s'
      \<longrightarrow> response_text L s' = Inr (t, s'))
   \<and> (encoding L self = Inr (v, self1) \<longrightarrow> response_text L self1 = response_text L self)"
proof (intro conjI impI)
  assume "encoding L self = Inr (v, self1)" "(public_step L)\<^sup>*\<^sup>* self1 s"
  then show "encoding L s = Inr (v, s)"
    by (auto intro: settled_encoding steps_settled encoding_settled)
next
  assume t: "response_text L self = Inr (t, self2)" and s: "(public_step L)\<^sup>*\<^sup>* self2 s'"
  from text_result [OF t] obtain v' where "settled L v' self2" "cached_ubody self2 = Some t"
    by blast
  with s show "response_text L s' = Inr (t, s')"
    by (auto intro: settled_text steps_settled steps_ubody)
next
  assume "encoding L self = Inr (v, self1)"
  then show "response_text L self1 = response_text L self" by (rule text_after_encoding)
qed

theorem accessors_stable_witness:
  "encoding w3lib (utf8_object [0x61, 0x62, 0x63]) = Inr (''utf-8'', utf8_object [0x61, 0x62, 0x63])
   \<and> (public_step w3lib)\<^sup>*\<^sup>* (utf8_object [0x61, 0x62, 0x63])
        ((utf8_object [0x61, 0x62, 0x63])\<lparr>cached_ubody := Some [97, 98, 99]\<rparr>)
   \<and> encoding w3lib ((utf8_object [0x61, 0x62, 0x63])\<lparr>cached_ubody := Some [97, 98, 99]\<rparr>)
       = Inr (''utf-8'', (utf8_object [0x61, 0x62, 0x63])\<lparr>cached_ubody := Some [97, 98, 99]\<rparr>)
   \<and> response_text w3lib (utf8_object [0x61, 0x62, 0x63])
       = Inr ([97, 98, 99], (utf8_object [0x61, 0x62, 0x63])\<lparr>cached_ubody := Some [97, 98, 99]\<rparr>)
   \<and> response_text w3lib ((utf8_object [0x61, 0x62, 0x63])\<lparr>cached_ubody := Some [97, 98, 99]\<rparr>)
       = Inr ([97, 98, 99], (utf8_object [0x61, 0x62, 0x63])\<lparr>cached_ubody := Some [97, 98, 99]\<rparr>)"
proof -
  let ?u = "utf8_object [0x61, 0x62, 0x63]"
  let ?t = "?u\<lparr>cached_ubody := Some [97, 98, 99]\<rparr>"
  have e: "encoding w3lib ?u = Inr (''utf-8'', ?u)" by (simp add: encoding_override)
  have x: "response_text w3lib ?u = Inr ([97, 98, 99], ?t)"
    by (simp add: utf8_object_text w3_utf8_abc)
  then have "public_step w3lib ?u ?t" by (auto simp: public_step_def)
  then have s: "(public_step w3lib)\<^sup>*\<^sup>* ?u ?t" by (rule r_into_rtranclp)
  have r: "(public_step w3lib)\<^sup>*\<^sup>* ?t ?t" by simp
  from accessors_stable [of w3lib ?u "''utf-8''" ?u ?t "[97, 98, 99]" ?t ?t] e x s r
  show ?thesis by simp
qed

section \<open>The two cached attributes\<close>

text \<open>
  Claim C3 says that after any completed operation \<^verbatim>\<open>_cached_benc\<close> and \<^verbatim>\<open>_cached_ubody\<close>
  are both set or both unset. The \<^verbatim>\<open>text\<close> property breaks it: on
  \<^verbatim>\<open>TextResponse('http://example.com/a/b', body=b'abc', encoding='utf-8')\<close> the override
  answers \<^verbatim>\<open>self.encoding\<close>, \<^verbatim>\<open>_body_inferred_encoding\<close> never runs, and \<^verbatim>\<open>text\<close> stores
  \<^verbatim>\<open>_cached_ubody\<close> while \<^verbatim>\<open>_cached_benc\<close> stays \<^verbatim>\<open>None\<close>.
\<close>

theorem text_stores_ubody_alone:
  "field_of cached_benc
     (state_of (after (example_response (BodyBytes (bytes_of ''abc'')) (Some ''utf-8''))
                      (response_text w3lib))) = Inr None
   \<and> field_of cached_ubody
     (state_of (after (example_response (BodyBytes (bytes_of ''abc'')) (Some ''utf-8''))
                      (response_text w3lib))) = Inr (Some [97, 98, 99])"
  by (simp add: example_utf8 bytes_abc after_def utf8_object_text w3_utf8_abc state_of_def
        field_of_def)

text \<open>
  Claim C3 as amended. On every object a caller can hold, a set \<^verbatim>\<open>_cached_benc\<close> comes with
  a set \<^verbatim>\<open>_cached_ubody\<close>; and \<^verbatim>\<open>_body_inferred_encoding\<close>, when it finds \<^verbatim>\<open>_cached_benc\<close>
  unset and returns, has set the two together. (The converse is what \<^verbatim>\<open>text\<close> breaks.)
\<close>

theorem cached_benc_comes_with_ubody:
  "(reachable L self \<longrightarrow> cached_benc self \<noteq> None \<longrightarrow> cached_ubody self \<noteq> None)
   \<and> (cached_benc self = None \<longrightarrow> body_inferred_encoding L self = Inr (v, self')
        \<longrightarrow> cached_benc self' = Some v \<and> cached_ubody self' \<noteq> None)"
proof (intro conjI impI)
  assume "reachable L self" "cached_benc self \<noteq> None"
  then show "cached_ubody self \<noteq> None"
    using reachable_cache_inv [of L self] by (auto simp: cache_inv_def paired_def)
next
  assume "cached_benc self = None" "body_inferred_encoding L self = Inr (v, self')"
  then have "cached_benc self' = Some v \<and> cached_ubody self' \<noteq> None"
    by (auto simp: body_inferred_encoding_def split: sum.splits)
  then show "cached_benc self' = Some v" "cached_ubody self' \<noteq> None" by simp_all
qed

theorem cached_benc_comes_with_ubody_witness:
  "reachable w3lib plain_object \<and> cached_benc plain_object = Some ''cp1252''
   \<and> cached_ubody plain_object = Some [97, 98, 99]
   \<and> cached_benc (utf8_object [0x61, 0x62, 0x63]) = None
   \<and> body_inferred_encoding w3lib (utf8_object [0x61, 0x62, 0x63])
       = Inr (''cp1252'', (utf8_object [0x61, 0x62, 0x63])
                \<lparr>cached_benc := Some ''cp1252'', cached_ubody := Some [97, 98, 99]\<rparr>)"
proof -
  let ?u = "utf8_object [0x61, 0x62, 0x63]"
  let ?i = "?u\<lparr>cached_benc := Some ''cp1252'', cached_ubody := Some [97, 98, 99]\<rparr>"
  have r: "reachable w3lib plain_object" by (rule reachable.constructed [OF example_plain [unfolded example_response_def]])
  have c: "cached_benc plain_object = Some ''cp1252''" "cached_ubody plain_object = Some [97, 98, 99]"
    by (simp_all add: plain_object_def)
  have i: "body_inferred_encoding w3lib ?u = Inr (''cp1252'', ?i)"
    by (simp add: body_inferred_encoding_def content_type_def utf8_object_def w3_headers_get_def
          w3_to_native_str_def DEFAULT_ENCODING_def w3_infer_abc)
  from cached_benc_comes_with_ubody [of w3lib plain_object "''cp1252''" plain_object]
       cached_benc_comes_with_ubody [of w3lib ?u "''cp1252''" ?i] r c i
  show ?thesis by simp
qed

section \<open>The life of the cache attributes\<close>

lemma public_step_cases:
  assumes "public_step L r r'"
  obtains v where "encoding L r = Inr (v, r')"
  | t where "response_text L r = Inr (t, r')"
  | "r' = r"
  | t r2 sel where "response_text L r = Inr (t, r2)" "r' = r2\<lparr>cached_selector := Some sel\<rparr>"
proof -
  from assms consider
      v where "encoding L r = Inr (v, r')"
    | t where "response_text L r = Inr (t, r')"
    | sel where "selector L r = Inr (sel, r')"
    by (auto simp: public_step_def body_as_unicode_def)
  then show ?thesis
  proof cases
    case 1 then show ?thesis by (rule that(1))
  next
    case 2 then show ?thesis by (rule that(2))
  next
    case 3
    from selector_result [OF 3] show ?thesis using that(3,4) by blast
  qed
qed

lemma public_step_write_once:
  assumes "cache_inv L r" "public_step L r r'"
  shows "cached_benc r = Some x \<Longrightarrow> cached_benc r' = Some x"
    and "cached_ubody r = Some y \<Longrightarrow> cached_ubody r' = Some y"
    and "memo_headers_encoding r = Some mh \<Longrightarrow> memo_headers_encoding r' = Some mh"
    and "memo_body_declared_encoding r = Some md \<Longrightarrow> memo_body_declared_encoding r' = Some md"
  using assms(2)
  by (cases rule: public_step_cases;
      auto dest: encoding_write_once [OF assms(1)] text_write_once [OF assms(1)])+

lemma public_step_fields:
  assumes "public_step L r r'"
  shows "p_encoding r' = p_encoding r" "p_body r' = p_body r" "p_url r' = p_url r"
    "headers r' = headers r" "status r' = status r" "request r' = request r"
    "flags r' = flags r"
  using assms
  by (cases rule: public_step_cases; auto dest: encoding_fields text_fields)+

lemma init_parts:
  assumes "TextResponse_init L url st hdrs body flgs req enc = Inr r"
  obtains bs u v r1 where
    "TextResponse_set_body L body (before_setters hdrs st enc)
       = Inr ((before_setters hdrs st enc)\<lparr>p_body := bs\<rparr>)"
    "body = BodyNone \<Longrightarrow> bs = []" "\<And>x. body = BodyBytes x \<Longrightarrow> bs = x"
    "url = UrlStr u" "encoding L ((before_setters hdrs st enc)\<lparr>p_body := bs\<rparr>) = Inr (v, r1)"
    "r = r1\<lparr>p_url := to_native_str L (Inr u) (Some v), request := req,
              flags := (case flgs of None \<Rightarrow> [] | Some f \<Rightarrow> f)\<rparr>"
proof -
  from init_result [OF assms] obtain self1 u v r1 where
    a: "TextResponse_set_body L body (before_setters hdrs st enc) = Inr self1" and
    u: "url = UrlStr u" and e: "encoding L self1 = Inr (v, r1)" and
    r: "r = r1\<lparr>p_url := to_native_str L (Inr u) (Some v), request := req,
                 flags := (case flgs of None \<Rightarrow> [] | Some f \<Rightarrow> f)\<rparr>"
    by blast
  from set_body_result [OF a] obtain bs where
    "self1 = (before_setters hdrs st enc)\<lparr>p_body := bs\<rparr>"
    "body = BodyNone \<longrightarrow> bs = []" "\<forall>x. body = BodyBytes x \<longrightarrow> bs = x"
    by blast
  with a u e r show ?thesis by (intro that [of bs u v r1]) auto
qed

lemma init_fields:
  assumes "TextResponse_init L url st hdrs body flgs req enc = Inr r"
  shows "p_encoding r = enc" "status r = st"
    "headers r = (case hdrs of None \<Rightarrow> [] | Some h \<Rightarrow> h)"
    "request r = req" "flags r = (case flgs of None \<Rightarrow> [] | Some f \<Rightarrow> f)"
    "body = BodyNone \<Longrightarrow> p_body r = []" "body = BodyBytes x \<Longrightarrow> p_body r = x"
  using assms
  by (rule init_parts; use encoding_fields in \<open>fastforce simp: before_setters_def\<close>)+

lemma init_override_caches:
  assumes "TextResponse_init L url st hdrs body flgs req enc = Inr r" "truthy enc"
  shows "cached_benc r = None" "cached_ubody r = None" "memo_headers_encoding r = None"
    "memo_body_declared_encoding r = None"
  using assms(1)
  by (rule init_parts; use assms(2) in \<open>simp add: encoding_override\<close>; fastforce)+

lemma init_resolves:
  assumes "TextResponse_init L url st hdrs body flgs req enc = Inr r" "\<not> truthy enc"
  shows "memo_headers_encoding r \<noteq> None"
proof -
  from assms(1) obtain bs u v r1 where
    e: "encoding L ((before_setters hdrs st enc)\<lparr>p_body := bs\<rparr>) = Inr (v, r1)" and
    r: "r = r1\<lparr>p_url := to_native_str L (Inr u) (Some v), request := req,
                 flags := (case flgs of None \<Rightarrow> [] | Some f \<Rightarrow> f)\<rparr>"
    by (rule init_parts)
  let ?s = "(before_setters hdrs st enc)\<lparr>p_body := bs\<rparr>"
  have "memo_headers_encoding (snd (declared_encoding L ?s)) \<noteq> None"
    using assms(2) by (simp add: declared_encoding_eq split: option.split)
  with encoding_shape [OF e] r show ?thesis by auto
qed

text \<open>
  Claim C4 says the four cache attributes are still unset when construction returns. They
  are not: \<^verbatim>\<open>_set_url\<close> evaluates \<^verbatim>\<open>self.encoding\<close> as the argument of \<^verbatim>\<open>to_native_str\<close>, so
  \<^verbatim>\<open>TextResponse('http://example.com/a/b', body=b'abc')\<close> returns with both memo cells
  filled and with \<^verbatim>\<open>_cached_benc\<close> and \<^verbatim>\<open>_cached_ubody\<close> set.
\<close>

theorem construction_fills_caches:
  "field_of memo_headers_encoding (example_response (BodyBytes (bytes_of ''abc'')) None)
     = Inr (Some None)
   \<and> field_of memo_body_declared_encoding (example_response (BodyBytes (bytes_of ''abc'')) None)
     = Inr (Some None)
   \<and> field_of cached_benc (example_response (BodyBytes (bytes_of ''abc'')) None)
     = Inr (Some ''cp1252'')
   \<and> field_of cached_ubody (example_response (BodyBytes (bytes_of ''abc'')) None)
     = Inr (Some [97, 98, 99])"
  by (simp add: example_plain field_of_def plain_object_def)

text \<open>
  Claim C4 as amended. Construction sets the attributes that are not caches from its
  arguments. When it is given an override that is a non-empty string, the four cache
  attributes are unset when it returns; without one, construction has already resolved
  the encoding and the header memo is filled. On every object a caller can hold, a
  completed operation leaves each cache attribute that was set as it was, and leaves the
  other attributes unchanged.
\<close>

theorem cache_lifecycle:
  "(TextResponse_init L url st hdrs body flgs req enc = Inr self \<longrightarrow>
      p_encoding self = enc \<and> status self = st
      \<and> headers self = (case hdrs of None \<Rightarrow> [] | Some h \<Rightarrow> h)
      \<and> request self = req \<and> flags self = (case flgs of None \<Rightarrow> [] | Some f \<Rightarrow> f)
      \<and> (body = BodyBytes bs \<longrightarrow> p_body self = bs)
      \<and> (truthy enc \<longrightarrow> cached_benc self = None \<and> cached_ubody self = None
            \<and> memo_headers_encoding self = None \<and> memo_body_declared_encoding self = None)
      \<and> (\<not> truthy enc \<longrightarrow> memo_headers_encoding self \<noteq> None))
   \<and> (reachable L r \<longrightarrow> public_step L r r' \<longrightarrow>
      (cached_benc r = Some x \<longrightarrow> cached_benc r' = Some x)
      \<and> (cached_ubody r = Some y \<longrightarrow> cached_ubody r' = Some y)
      \<and> (memo_headers_encoding r = Some mh \<longrightarrow> memo_headers_encoding r' = Some mh)
      \<and> (memo_body_declared_encoding r = Some md \<longrightarrow> memo_body_declared_encoding r' = Some md)
      \<and> p_encoding r' = p_encoding r \<and> p_body r' = p_body r \<and> p_url r' = p_url r
      \<and> headers r' = headers r \<and> status r' = status r \<and> request r' = request r
      \<and> flags r' = flags r)"
proof (intro conjI impI)
  assume i: "TextResponse_init L url st hdrs body flgs req enc = Inr self"
  show "p_encoding self = enc" "status self = st"
    "headers self = (case hdrs of None \<Rightarrow> [] | Some h \<Rightarrow> h)"
    "request self = req" "flags self = (case flgs of None \<Rightarrow> [] | Some f \<Rightarrow> f)"
    using init_fields [OF i] by simp_all
  { assume "body = BodyBytes bs" then show "p_body self = bs" using init_fields(7) [OF i] by simp }
  { assume "truthy enc"
    then show "cached_benc self = None" "cached_ubody self = None"
      "memo_headers_encoding self = None" "memo_body_declared_encoding self = None"
      using init_override_caches [OF i] by simp_all }
  { assume "\<not> truthy enc" then show "memo_headers_encoding self \<noteq> None"
      using init_resolves [OF i] by simp }
next
  assume r: "reachable L r" and s: "public_step L r r'"
  have c: "cache_inv L r" using r by (rule reachable_cache_inv)
  show "p_encoding r' = p_encoding r" "p_body r' = p_body r" "p_url r' = p_url r"
    "headers r' = headers r" "status r' = status r" "request r' = request r"
    "flags r' = flags r"
    using public_step_fields [OF s] by simp_all
  { assume "cached_benc r = Some x" then show "cached_benc r' = Some x"
      using public_step_write_once(1) [OF c s] by simp }
  { assume "cached_ubody r = Some y" then show "cached_ubody r' = Some y"
      using public_step_write_once(2) [OF c s] by simp }
  { assume "memo_headers_encoding r = Some mh" then show "memo_headers_encoding r' = Some mh"
      using public_step_write_once(3) [OF c s] by simp }
  { assume "memo_body_declared_encoding r = Some md"
    then show "memo_body_declared_encoding r' = Some md"
      using public_step_write_once(4) [OF c s] by simp }
qed

lemma plain_object_encoding: "encoding w3lib plain_object = Inr (''cp1252'', plain_object)"
  by (simp add: encoding_eq declared_encoding_eq body_inferred_encoding_def plain_object_def)

theorem cache_lifecycle_witness:
  "example_response (BodyBytes [0x61, 0x62, 0x63]) (Some ''utf-8'')
     = Inr (utf8_object [0x61, 0x62, 0x63])
   \<and> truthy (Some ''utf-8'')
   \<and> p_body (utf8_object [0x61, 0x62, 0x63]) = [0x61, 0x62, 0x63]
   \<and> cached_benc (utf8_object [0x61, 0x62, 0x63]) = None
   \<and> memo_headers_encoding (utf8_object [0x61, 0x62, 0x63]) = None
   \<and> example_response (BodyBytes [0x61, 0x62, 0x63]) None = Inr plain_object
   \<and> \<not> truthy None
   \<and> memo_headers_encoding plain_object \<noteq> None
   \<and> reachable w3lib plain_object \<and> public_step w3lib plain_object plain_object
   \<and> cached_benc plain_object = Some ''cp1252''
   \<and> cached_ubody plain_object = Some [97, 98, 99]
   \<and> memo_headers_encoding plain_object = Some None
   \<and> memo_body_declared_encoding plain_object = Some None"
proof -
  let ?abc = "[0x61, 0x62, 0x63] :: bytes"
  have u: "TextResponse_init w3lib (UrlStr ''http://example.com/a/b'') 200 None
             (BodyBytes ?abc) None None (Some ''utf-8'') = Inr (utf8_object ?abc)"
    using example_utf8 [of ?abc] by (simp add: example_response_def)
  have p: "TextResponse_init w3lib (UrlStr ''http://example.com/a/b'') 200 None
             (BodyBytes ?abc) None None None = Inr plain_object"
    using example_plain by (simp add: example_response_def bytes_abc)
  have r: "reachable w3lib plain_object" using p by (rule reachable.constructed)
  have s: "public_step w3lib plain_object plain_object"
    using plain_object_encoding by (auto simp: public_step_def)
  have c: "cached_benc plain_object = Some ''cp1252''"
    "cached_ubody plain_object = Some [97, 98, 99]"
    "memo_headers_encoding plain_object = Some None"
    "memo_body_declared_encoding plain_object = Some None"
    by (simp_all add: plain_object_def)
  from cache_lifecycle [of w3lib "UrlStr ''http://example.com/a/b''" 200 None "BodyBytes ?abc"
         None None "Some ''utf-8''" "utf8_object ?abc" ?abc plain_object plain_object
         "''cp1252''" "[97, 98, 99]" None None]
       cache_lifecycle [of w3lib "UrlStr ''http://example.com/a/b''" 200 None "BodyBytes ?abc"
         None None None plain_object ?abc plain_object plain_object
         "''cp1252''" "[97, 98, 99]" None None]
       u p r s c
  show ?thesis by (simp add: example_response_def)
qed

section \<open>The order of the cascade\<close>

lemma utf8_header_value:
  "w3_to_native_str (Inl (w3_headers_get utf8_header (bytes_of ''Content-Type'') [])) None
     = ''text/html; charset=UTF-8''"
  by (simp add: utf8_header_def bytes_of_def w3_headers_get_def w3_to_native_str_def
        char_of_def bit_Suc_0_iff)

lemma find_charset_example: "find_charset ''text/html; charset=UTF-8'' = Some ''UTF-8''"
  by (simp add: lower_char_def charset_char_def)

lemma w3_resolve_UTF8: "w3_resolve_encoding ''UTF-8'' = Some ''utf-8''"
  by (simp add: w3_resolve_encoding_def known_encodings_def lower_char_def char_of_def
        bit_Suc_0_iff)

lemma w3_header_utf8:
  "headers r = utf8_header \<Longrightarrow> headers_encoding_method w3lib r = Some ''utf-8''"
  by (simp add: headers_encoding_method_def content_type_def utf8_header_value
        w3_http_content_type_encoding_def find_charset_example w3_resolve_UTF8
        del: find_charset.simps)

lemma header_object_init:
  "TextResponse_init w3lib (UrlStr ''http://example.com/a/b'') 200 (Some utf8_header)
     (BodyBytes body) None None None = Inr (header_object body)"
proof -
  let ?s = "(before_setters (Some utf8_header) 200 None)\<lparr>p_body := body\<rparr>"
  have h: "headers_encoding_method w3lib ?s = Some ''utf-8''"
    by (rule w3_header_utf8) simp
  have e: "encoding w3lib ?s
             = Inr (''utf-8'', ?s\<lparr>memo_headers_encoding := Some (Some ''utf-8'')\<rparr>)"
    by (simp add: encoding_eq declared_encoding_eq h)
  show ?thesis
    by (subst init_bytes, subst e)
       (simp add: w3_to_native_str_def header_object_def before_setters_def)
qed

lemma body_inferred_after_declared:
  "value_of (body_inferred_encoding L (snd (declared_encoding L r)))
     = value_of (body_inferred_encoding L r)"
  by (simp add: body_inferred_encoding_def declared_encoding_fields value_of_def
        split: option.split sum.split)

lemma encoding_value:
  assumes "memo_sound L r"
  shows "value_of (encoding L r) =
           (if truthy (declared_signal L r) then Inr (the (declared_signal L r))
            else value_of (body_inferred_encoding L r))"
  using declared_encoding_signal(1) [OF assms] body_inferred_after_declared [of L r]
  by (simp add: encoding_eq value_of_def)

lemma headers_encoding_method_cong:
  "headers r' = headers r \<Longrightarrow> headers_encoding_method L r' = headers_encoding_method L r"
  by (simp add: headers_encoding_method_def content_type_def)

text \<open>
  Claim C2 says the override wins whenever it is set. The cascade is a chain of Python
  \<^verbatim>\<open>or\<close>, which passes over an empty string as it passes over \<^verbatim>\<open>None\<close>:
  \<^verbatim>\<open>TextResponse('http://example.com/a/b', body=b'abc', encoding='')\<close> has its override set
  (\<^verbatim>\<open>_set_body\<close> would test it with \<^verbatim>\<open>is None\<close>), and \<^verbatim>\<open>encoding\<close> returns the
  body-inferred \<^verbatim>\<open>'cp1252'\<close>.
\<close>

theorem empty_override_is_skipped:
  "value_of (after (example_response (BodyBytes (bytes_of ''abc'')) (Some ''''))
                   (encoding w3lib)) = Inr ''cp1252''"
proof -
  let ?s = "(before_setters None 200 (Some ''''))\<lparr>p_body := [0x61, 0x62, 0x63]\<rparr>"
  let ?r = "plain_object\<lparr>p_encoding := Some ''''\<rparr>"
  have e: "encoding w3lib ?s = Inr (''cp1252'', ?s\<lparr>memo_headers_encoding := Some None,
             memo_body_declared_encoding := Some None, cached_benc := Some ''cp1252'',
             cached_ubody := Some [97, 98, 99]\<rparr>)"
    by (subst w3_plain_encoding) (simp_all add: before_setters_def w3_infer_abc)
  have i: "example_response (BodyBytes (bytes_of ''abc'')) (Some '''') = Inr ?r"
    unfolding example_response_def bytes_abc
    by (subst init_bytes, subst e)
       (simp add: w3_to_native_str_def plain_object_def before_setters_def)
  have "encoding w3lib ?r = Inr (''cp1252'', ?r)"
    by (simp add: encoding_eq declared_encoding_eq body_inferred_encoding_def plain_object_def)
  with i show ?thesis by (simp add: after_def value_of_def)
qed

text \<open>
  Claim C2 as amended. On every object a caller can hold, \<^verbatim>\<open>encoding\<close> returns the first of
  these that is a non-empty string: the override, the charset of the \<^verbatim>\<open>Content-Type\<close>
  header, the encoding declared in the body; if none is, it returns the body-inferred
  encoding. A signal that is \<^verbatim>\<open>None\<close> or empty counts as absent. With no override and a
  header charset, the value is the same whatever the body is.
\<close>

theorem encoding_cascade:
  "(reachable L self \<longrightarrow>
      value_of (encoding L self) =
        (if truthy (p_encoding self) then Inr (the (p_encoding self))
         else if truthy (headers_encoding_method L self)
           then Inr (the (headers_encoding_method L self))
         else if truthy (body_declared_encoding_method L self)
           then Inr (the (body_declared_encoding_method L self))
         else value_of (body_inferred_encoding L self)))
   \<and> (reachable L self \<longrightarrow> reachable L self' \<longrightarrow> \<not> truthy (p_encoding self)
        \<longrightarrow> \<not> truthy (p_encoding self') \<longrightarrow> headers self' = headers self
        \<longrightarrow> truthy (headers_encoding_method L self)
        \<longrightarrow> value_of (encoding L self') = value_of (encoding L self))"
proof (intro conjI impI)
  assume "reachable L self"
  then have "memo_sound L self" using reachable_cache_inv by (auto simp: cache_inv_def)
  then show "value_of (encoding L self) =
        (if truthy (p_encoding self) then Inr (the (p_encoding self))
         else if truthy (headers_encoding_method L self)
           then Inr (the (headers_encoding_method L self))
         else if truthy (body_declared_encoding_method L self)
           then Inr (the (body_declared_encoding_method L self))
         else value_of (body_inferred_encoding L self))"
    by (simp add: encoding_value declared_signal_def)
next
  assume a: "reachable L self" "reachable L self'" "\<not> truthy (p_encoding self)"
    "\<not> truthy (p_encoding self')" "headers self' = headers self"
    "truthy (headers_encoding_method L self)"
  from a(1,2) have "memo_sound L self" "memo_sound L self'"
    using reachable_cache_inv by (auto simp: cache_inv_def)
  with a(3-6) headers_encoding_method_cong [OF a(5), of L]
  show "value_of (encoding L self') = value_of (encoding L self)"
    by (simp add: encoding_value declared_signal_def)
qed

theorem encoding_cascade_witness:
  "reachable w3lib (header_object [0xFF]) \<and> reachable w3lib (header_object [0x61, 0x62, 0x63])
   \<and> \<not> truthy (p_encoding (header_object [0xFF]))
   \<and> headers (header_object [0x61, 0x62, 0x63]) = headers (header_object [0xFF])
   \<and> truthy (headers_encoding_method w3lib (header_object [0xFF]))
   \<and> value_of (encoding w3lib (header_object [0xFF])) = Inr ''utf-8''
   \<and> value_of (encoding w3lib (header_object [0x61, 0x62, 0x63])) = Inr ''utf-8''"
proof -
  have r: "reachable w3lib (header_object body)" for body
    using header_object_init by (rule reachable.constructed)
  have f: "p_encoding (header_object body) = None" "headers (header_object body) = utf8_header"
    for body by (simp_all add: header_object_def)
  have h: "headers_encoding_method w3lib (header_object body) = Some ''utf-8''" for body
    by (rule w3_header_utf8) (simp add: f)
  from encoding_cascade [of w3lib "header_object [0xFF]" "header_object [0x61, 0x62, 0x63]"]
       r f h
  show ?thesis by simp
qed

section \<open>The auto-detect fallback\<close>

lemma ascii_decodable: "list_all (\<lambda>c. c < 0x80) body \<Longrightarrow> decodable body ''ascii''"
  by (simp add: decodable_def bytes_decode_def decode_ascii_def)

lemma undecodable_81:
  "\<not> decodable [0x81] ''ascii''" "\<not> decodable [0x81] ''utf-8''" "\<not> decodable [0x81] ''cp1252''"
  by (simp_all add: decodable_def bytes_decode_def decode_ascii_def decode_cp1252_def
        cp1252_char_def cp1252_high_def)

lemma w3_infer_81:
  "w3_html_to_unicode [] [0x81] ''ascii'' (Some (auto_detect_fun w3lib)) = Inr (''ascii'', [0xFFFD])"
  by (simp add: w3_html_to_unicode_def w3_http_content_type_encoding_def read_bom_def
        BOM_UTF8_def w3_html_body_declared_encoding_def auto_detect_fun_eq undecodable_81
        to_unicode_def)

lemma body_inferred_value:
  "cached_benc self = None \<Longrightarrow>
   value_of (body_inferred_encoding L self) =
     value_of (html_to_unicode L (to_native_str L (Inl (content_type L self)) None)
                 (p_body self) DEFAULT_ENCODING (Some (auto_detect_fun L)))"
  by (simp add: body_inferred_encoding_def value_of_def split: sum.split)

text \<open>
  Claim C8 says the fallback returns the first candidate that decodes, so the default
  encoding \<^verbatim>\<open>'ascii'\<close> for a pure ASCII body. \<^verbatim>\<open>_auto_detect_fun\<close> returns
  \<^verbatim>\<open>resolve_encoding(enc)\<close>, not \<^verbatim>\<open>enc\<close>, and the library resolves \<^verbatim>\<open>'ascii'\<close> to
  \<^verbatim>\<open>'cp1252'\<close>: for the body \<^verbatim>\<open>b'abc'\<close> the candidate \<^verbatim>\<open>'ascii'\<close> decodes, the detector
  returns \<^verbatim>\<open>'cp1252'\<close>, and so does \<^verbatim>\<open>encoding\<close> on
  \<^verbatim>\<open>TextResponse('http://example.com/a/b', body=b'abc')\<close>.
\<close>

theorem detector_returns_resolved_name:
  "DEFAULT_ENCODING = ''ascii'' \<and> decodable (bytes_of ''abc'') DEFAULT_ENCODING
   \<and> auto_detect_fun w3lib (bytes_of ''abc'') = Inr (Some ''cp1252'')
   \<and> value_of (after (example_response (BodyBytes (bytes_of ''abc'')) None) (encoding w3lib))
       = Inr ''cp1252''"
  by (simp add: DEFAULT_ENCODING_def bytes_abc ascii_decodable w3_detect_abc
        example_plain [unfolded bytes_abc] after_def plain_object_encoding value_of_def)

text \<open>
  Claim C8 as amended. \<^verbatim>\<open>_auto_detect_fun\<close> tries to decode the body under \<^verbatim>\<open>'ascii'\<close>, then
  \<^verbatim>\<open>'utf-8'\<close>, then \<^verbatim>\<open>'cp1252'\<close>, and returns what \<^verbatim>\<open>resolve_encoding\<close> gives for the first
  candidate that decodes, \<^verbatim>\<open>None\<close> when none does; it never raises. For a pure ASCII body
  it returns \<^verbatim>\<open>resolve_encoding('ascii')\<close>. \<^verbatim>\<open>_body_inferred_encoding\<close>, when nothing is
  cached, returns the encoding \<^verbatim>\<open>html_to_unicode\<close> chooses when handed this detector and
  the default \<^verbatim>\<open>'ascii'\<close>.
\<close>

theorem auto_detect_cascade:
  "auto_detect_fun L body =
     Inr (if decodable body DEFAULT_ENCODING then resolve_encoding L DEFAULT_ENCODING
          else if decodable body ''utf-8'' then resolve_encoding L ''utf-8''
          else if decodable body ''cp1252'' then resolve_encoding L ''cp1252''
          else None)
   \<and> (list_all (\<lambda>c. c < 0x80) body \<longrightarrow>
        auto_detect_fun L body = Inr (resolve_encoding L DEFAULT_ENCODING))
   \<and> (cached_benc self = None \<longrightarrow>
        value_of (body_inferred_encoding L self) =
          value_of (html_to_unicode L (to_native_str L (Inl (content_type L self)) None)
                      (p_body self) DEFAULT_ENCODING (Some (auto_detect_fun L))))"
  by (simp add: auto_detect_fun_eq DEFAULT_ENCODING_def ascii_decodable
        body_inferred_value [unfolded DEFAULT_ENCODING_def])

theorem auto_detect_cascade_witness:
  "list_all (\<lambda>c. c < 0x80) [0x61, 0x62, 0x63 :: byte]
   \<and> auto_detect_fun w3lib [0x61, 0x62, 0x63] = Inr (Some ''cp1252'')
   \<and> auto_detect_fun w3lib [0x81] = Inr None
   \<and> cached_benc (utf8_object [0x81]) = None
   \<and> value_of (body_inferred_encoding w3lib (utf8_object [0x81])) = Inr ''ascii''"
proof -
  have c: "content_type w3lib (utf8_object [0x81]) = []"
    by (simp add: content_type_def utf8_object_def w3_headers_get_def)
  have d: "decodable [0x61, 0x62, 0x63] ''ascii''"
    by (rule ascii_decodable) simp
  from auto_detect_cascade [of w3lib "[0x61, 0x62, 0x63]" "utf8_object [0x81]"]
       auto_detect_cascade [of w3lib "[0x81]" "utf8_object [0x81]"] d
  show ?thesis
    by (simp add: DEFAULT_ENCODING_def w3_resolve_names undecodable_81 c w3_to_native_str_def
          w3_infer_81 value_of_def)
qed

section \<open>An explicit override\<close>

lemma ascii_byte:
  assumes "u < (0x80 :: nat)"
  shows "(of_nat u :: byte) < 0x80" "unat (of_nat u :: byte) = u"
proof -
  from assms show "unat (of_nat u :: byte) = u" by (simp add: unat_of_nat)
  with assms show "(of_nat u :: byte) < 0x80" by (simp add: word_less_nat_alt)
qed

lemma encode_ascii_utf_8:
  "list_all (\<lambda>u. u < 0x80) t \<Longrightarrow> w3_str_encode t ''utf-8'' = Inr (map of_nat t)"
  by (induction t) (auto simp: w3_str_encode_def list_all_iff)

lemma replace_utf_8_ascii:
  "list_all (\<lambda>u. u < 0x80) t \<Longrightarrow> replace_utf_8 (map of_nat t) = t"
  by (induction t) (simp_all add: ascii_byte)

lemma read_bom_ascii: "list_all (\<lambda>u. u < 0x80) t \<Longrightarrow> read_bom (map of_nat t) = None"
proof (cases t)
  case Nil
  then show ?thesis by (simp add: read_bom_def BOM_UTF8_def)
next
  case (Cons u us)
  assume "list_all (\<lambda>u. u < 0x80) t"
  with Cons have "(of_nat u :: byte) < 0x80" by (simp add: ascii_byte)
  then have "(of_nat u :: byte) \<noteq> 0xEF" by auto
  with Cons show ?thesis by (auto simp: read_bom_def BOM_UTF8_def take_Cons')
qed

lemma w3_utf8_ascii:
  "list_all (\<lambda>u. u < 0x80) t \<Longrightarrow>
   w3_html_to_unicode ''charset=utf-8'' (map of_nat t) ''utf8'' None = Inr (''utf-8'', t)"
  by (simp add: w3_html_to_unicode_def w3_charset_utf8 read_bom_ascii to_unicode_def
        replace_utf_8_ascii)

lemma init_text:
  "TextResponse_init L (UrlStr u) st hdrs (BodyText t) flgs req (Some enc) =
     (case str_encode L t enc of
        Inl e \<Rightarrow> Inl e
      | Inr bs \<Rightarrow> TextResponse_init L (UrlStr u) st hdrs (BodyBytes bs) flgs req (Some enc))"
  by (simp add: TextResponse_init_def TextResponse_set_body_def Response_set_body_def Let_def
        before_setters_def split: sum.split)

lemma init_override:
  assumes "truthy (Some E)"
  shows "TextResponse_init L (UrlStr u) st hdrs (BodyBytes B) flgs req (Some E) =
     Inr ((before_setters hdrs st (Some E))\<lparr>p_body := B,
            p_url := to_native_str L (Inr u) (Some E), request := req,
            flags := (case flgs of None \<Rightarrow> [] | Some f \<Rightarrow> f)\<rparr>)"
  using assms by (simp add: init_bytes encoding_override)

lemma example_empty_override:
  "example_response (BodyBytes (bytes_of ''abc'')) (Some '''')
     = Inr (plain_object\<lparr>p_encoding := Some ''''\<rparr>)"
proof -
  let ?s = "(before_setters None 200 (Some ''''))\<lparr>p_body := [0x61, 0x62, 0x63]\<rparr>"
  have e: "encoding w3lib ?s = Inr (''cp1252'', ?s\<lparr>memo_headers_encoding := Some None,
             memo_body_declared_encoding := Some None, cached_benc := Some ''cp1252'',
             cached_ubody := Some [97, 98, 99]\<rparr>)"
    by (subst w3_plain_encoding) (simp_all add: before_setters_def w3_infer_abc)
  show ?thesis
    unfolding example_response_def bytes_abc
    by (subst init_bytes, subst e)
       (simp add: w3_to_native_str_def plain_object_def before_setters_def)
qed

lemma empty_override_encoding:
  "encoding w3lib (plain_object\<lparr>p_encoding := Some ''''\<rparr>)
     = Inr (''cp1252'', plain_object\<lparr>p_encoding := Some ''''\<rparr>)"
  by (simp add: encoding_eq declared_encoding_eq body_inferred_encoding_def plain_object_def)

lemma example_text_bom:
  "example_response (BodyText [0xFEFF]) (Some ''utf-8'') = Inr (utf8_object [0xEF, 0xBB, 0xBF])"
  using example_utf8 [of "[0xEF, 0xBB, 0xBF]"]
  by (simp add: example_response_def init_text w3_encode_bom)

text \<open>
  Claim C5 says that for every override \<open>E\<close> the accessor returns \<open>E\<close>, \<^verbatim>\<open>text\<close> decodes
  the body under \<open>E\<close>, and text encoded under \<open>E\<close> comes back unchanged. Two inputs:
  with the override \<^verbatim>\<open>''\<close> and the body \<^verbatim>\<open>b'abc'\<close> the accessor returns \<^verbatim>\<open>'cp1252'\<close>; with
  the override \<^verbatim>\<open>'utf-8'\<close> and the one-character text body U+FEFF, stored as the bytes EF BB BF,
  \<^verbatim>\<open>text\<close> is the empty string, because \<^verbatim>\<open>html_to_unicode\<close> drops a byte order mark that
  agrees with the charset it is given.
\<close>

theorem override_round_trip_fails:
  "field_of p_encoding (example_response (BodyBytes (bytes_of ''abc'')) (Some '''')) = Inr (Some '''')
   \<and> value_of (after (example_response (BodyBytes (bytes_of ''abc'')) (Some ''''))
                    (encoding w3lib)) = Inr ''cp1252''
   \<and> field_of p_body (example_response (BodyText [0xFEFF]) (Some ''utf-8''))
       = Inr [0xEF, 0xBB, 0xBF]
   \<and> value_of (after (example_response (BodyText [0xFEFF]) (Some ''utf-8''))
                    (encoding w3lib)) = Inr ''utf-8''
   \<and> value_of (after (example_response (BodyText [0xFEFF]) (Some ''utf-8''))
                    (response_text w3lib)) = Inr []"
proof -
  have "p_encoding (plain_object\<lparr>p_encoding := Some ''''\<rparr>) = Some ''''" by simp
  then show ?thesis
    by (simp add: example_empty_override empty_override_encoding example_text_bom
          encoding_override utf8_object_text w3_utf8_bom after_def value_of_def field_of_def)
qed

text \<open>
  Claim C5 as amended. For every bytes body \<open>B\<close> and every override \<open>E\<close> that is a
  non-empty string, construction returns, \<^verbatim>\<open>encoding\<close> returns \<open>E\<close> itself and leaves the
  object alone, and \<^verbatim>\<open>text\<close> is the text that
  \<^verbatim>\<open>html_to_unicode('charset=' + E, B)\<close> returns: the lossy decoding of the library under
  the encoding it finds for that header, which need not be a decoding under \<open>E\<close>. On the
  instance of the library, ASCII text encoded under \<^verbatim>\<open>'utf-8'\<close> comes back unchanged.
\<close>

theorem override_encoding_and_text:
  "(truthy (Some E) \<longrightarrow>
      (\<exists>self. TextResponse_init L (UrlStr u) st hdrs (BodyBytes B) flgs req (Some E) = Inr self
         \<and> encoding L self = Inr (E, self)
         \<and> response_text L self =
             (case html_to_unicode L (''charset='' @ E) B ''utf8'' None of
                Inl e \<Rightarrow> Inl e
              | Inr (enc, t) \<Rightarrow> Inr (t, self\<lparr>cached_ubody := Some t\<rparr>))))
   \<and> (list_all (\<lambda>c. c < 0x80) T \<longrightarrow>
        value_of (after (example_response (BodyText T) (Some ''utf-8'')) (response_text w3lib))
          = Inr T)"
proof (intro conjI impI)
  assume t: "truthy (Some E)"
  let ?self = "(before_setters hdrs st (Some E))\<lparr>p_body := B,
            p_url := to_native_str L (Inr u) (Some E), request := req,
            flags := (case flgs of None \<Rightarrow> [] | Some f \<Rightarrow> f)\<rparr>"
  have f: "p_encoding ?self = Some E" "cached_ubody ?self = None" "p_body ?self = B"
    by (simp_all add: before_setters_def)
  have "encoding L ?self = Inr (E, ?self)"
    using encoding_override [of ?self L] t f(1) by simp
  moreover have "response_text L ?self =
             (case html_to_unicode L (''charset='' @ E) B ''utf8'' None of
                Inl e \<Rightarrow> Inl e
              | Inr (enc, t) \<Rightarrow> Inr (t, ?self\<lparr>cached_ubody := Some t\<rparr>))"
    using text_override [of ?self L] t f by simp
  ultimately show "\<exists>self. TextResponse_init L (UrlStr u) st hdrs (BodyBytes B) flgs req (Some E)
           = Inr self
         \<and> encoding L self = Inr (E, self)
         \<and> response_text L self =
             (case html_to_unicode L (''charset='' @ E) B ''utf8'' None of
                Inl e \<Rightarrow> Inl e
              | Inr (enc, t) \<Rightarrow> Inr (t, self\<lparr>cached_ubody := Some t\<rparr>))"
    using init_override [OF t, of L u st hdrs B flgs req] by blast
next
  assume a: "list_all (\<lambda>c. c < 0x80) T"
  have "example_response (BodyText T) (Some ''utf-8'') = Inr (utf8_object (map of_nat T))"
    using example_utf8 [of "map of_nat T"]
    by (simp add: example_response_def init_text encode_ascii_utf_8 [OF a])
  then show "value_of (after (example_response (BodyText T) (Some ''utf-8''))
                 (response_text w3lib)) = Inr T"
    by (simp add: after_def utf8_object_text w3_utf8_ascii [OF a] value_of_def)
qed

theorem override_encoding_and_text_witness:
  "truthy (Some ''utf-8'')
   \<and> example_response (BodyBytes [0x61, 0x62, 0x63]) (Some ''utf-8'')
       = Inr (utf8_object [0x61, 0x62, 0x63])
   \<and> encoding w3lib (utf8_object [0x61, 0x62, 0x63])
       = Inr (''utf-8'', utf8_object [0x61, 0x62, 0x63])
   \<and> response_text w3lib (utf8_object [0x61, 0x62, 0x63])
       = Inr ([97, 98, 99], (utf8_object [0x61, 0x62, 0x63])\<lparr>cached_ubody := Some [97, 98, 99]\<rparr>)
   \<and> list_all (\<lambda>c. c < 0x80) [97, 98, 99 :: nat]
   \<and> value_of (after (example_response (BodyText [97, 98, 99]) (Some ''utf-8''))
                    (response_text w3lib)) = Inr [97, 98, 99]"
proof -
  from override_encoding_and_text [of "''utf-8''" w3lib "''http://example.com/a/b''" 200 None
         "[0x61, 0x62, 0x63]" None None "[97, 98, 99]"]
  show ?thesis
    by (simp add: example_utf8 [unfolded example_response_def] example_utf8 w3_utf8_abc)
qed

section \<open>Where the text comes from\<close>

lemma declared_encoding_other:
  "declared_encoding L (r\<lparr>p_url := u\<rparr>) =
     (fst (declared_encoding L r), (snd (declared_encoding L r))\<lparr>p_url := u\<rparr>)"
  "declared_encoding L (r\<lparr>request := q\<rparr>) =
     (fst (declared_encoding L r), (snd (declared_encoding L r))\<lparr>request := q\<rparr>)"
  "declared_encoding L (r\<lparr>flags := f\<rparr>) =
     (fst (declared_encoding L r), (snd (declared_encoding L r))\<lparr>flags := f\<rparr>)"
  by (simp_all add: declared_encoding_eq split: option.split)

lemma settled_other:
  "settled L v r \<Longrightarrow> settled L v (r\<lparr>p_url := u, request := q, flags := f\<rparr>)"
  by (simp add: settled_def declared_encoding_other)

lemma reachable_settled: "reachable L r \<Longrightarrow> \<exists>v. settled L v r"
proof (induction rule: reachable.induct)
  case (constructed url st hdrs body flgs req enc self)
  from init_result [OF constructed] obtain self1 u v r1 where
    e: "encoding L self1 = Inr (v, r1)" and
    r: "self = r1\<lparr>p_url := to_native_str L (Inr u) (Some v), request := req,
                    flags := (case flgs of None \<Rightarrow> [] | Some f \<Rightarrow> f)\<rparr>"
    by blast
  from e have "settled L v r1" by (rule encoding_settled)
  then have "settled L v self" unfolding r by (rule settled_other)
  then show ?case by blast
next
  case (stepped self self')
  then show ?case by (auto intro: public_step_settled)
qed

lemma settled_declared:
  assumes "settled L v r" "cache_inv L r" "cached_ubody r = None"
  shows "declared_signal L r = Some v" "truthy (declared_signal L r)"
proof -
  from assms(2,3) have b: "cached_benc r = None" and m: "memo_sound L r"
    by (auto simp: cache_inv_def paired_def)
  from assms(1) b have "truthy (fst (declared_encoding L r))"
    "fst (declared_encoding L r) = Some v"
    by (auto simp: settled_def split: if_splits)
  with declared_encoding_signal(1) [OF m]
  show "declared_signal L r = Some v" "truthy (declared_signal L r)" by simp_all
qed

lemma settled_first_text:
  assumes "settled L v r" "cached_ubody r = None"
  shows "response_text L r =
           (case html_to_unicode L (''charset='' @ v) (p_body r) ''utf8'' None of
              Inl e \<Rightarrow> Inl e
            | Inr (enc, t) \<Rightarrow> Inr (t, r\<lparr>cached_ubody := Some t\<rparr>))"
  using assms by (simp add: response_text_def settled_encoding)

lemma declared_signal_cong:
  "p_encoding r' = p_encoding r \<Longrightarrow> headers r' = headers r \<Longrightarrow> p_body r' = p_body r
     \<Longrightarrow> declared_signal L r' = declared_signal L r"
  by (simp add: declared_signal_def headers_encoding_method_def
        body_declared_encoding_method_def content_type_def)

lemma init_inferred:
  assumes i: "TextResponse_init L (UrlStr u) st hdrs (BodyBytes B) flgs req enc = Inr r"
    and n: "\<not> truthy (declared_signal L r)"
  shows "\<exists>benc t. html_to_unicode L (to_native_str L (Inl (content_type L r)) None) B
                     DEFAULT_ENCODING (Some (auto_detect_fun L)) = Inr (benc, t)
           \<and> cached_benc r = Some benc \<and> cached_ubody r = Some t"
proof -
  let ?s = "(before_setters hdrs st enc)\<lparr>p_body := B\<rparr>"
  let ?d = "snd (declared_encoding L ?s)"
  from i obtain v r1 where e: "encoding L ?s = Inr (v, r1)" and
    r: "r = r1\<lparr>p_url := to_native_str L (Inr u) (Some v), request := req,
                 flags := (case flgs of None \<Rightarrow> [] | Some f \<Rightarrow> f)\<rparr>"
    by (auto simp: init_bytes split: sum.splits)
  have f: "p_encoding r = p_encoding ?s" "headers r = headers ?s" "p_body r = p_body ?s"
    using encoding_fields [OF e] r by simp_all
  have m: "memo_sound L ?s" by (simp add: memo_sound_def)
  have "declared_signal L r = declared_signal L ?s" using f by (rule declared_signal_cong)
  with n declared_encoding_signal(1) [OF m] have nt: "\<not> truthy (fst (declared_encoding L ?s))"
    by simp
  with e have bi: "body_inferred_encoding L ?d = Inr (v, r1)" by (simp add: encoding_eq)
  have c: "cached_benc ?d = None" "p_body ?d = B" "content_type L ?d = content_type L r"
    using f(2) by (simp_all add: declared_encoding_fields content_type_def)
  from bi c obtain t where
    "html_to_unicode L (to_native_str L (Inl (content_type L r)) None) B
       DEFAULT_ENCODING (Some (auto_detect_fun L)) = Inr (v, t)"
    "r1 = ?d\<lparr>cached_benc := Some v, cached_ubody := Some t\<rparr>"
    by (auto simp: body_inferred_encoding_def split: sum.splits)
  with r show ?thesis by simp
qed

lemma w3_charset_hex: "w3_http_content_type_encoding ''charset=hex'' = Some ''hex''"
  by (simp add: w3_http_content_type_encoding_def lower_char_def charset_char_def
        w3_resolve_encoding_def known_encodings_def)

lemma w3_hex_abc:
  "w3_html_to_unicode ''charset=hex'' [0x61, 0x62, 0x63] ''utf8'' None = Inl LookupError"
  by (simp add: w3_html_to_unicode_def w3_charset_hex read_bom_def BOM_UTF8_def to_unicode_def)

lemma w3_utf8_any:
  "w3_html_to_unicode ''charset=utf-8'' B ''utf8'' None
     = Inr (''utf-8'', replace_utf_8 (if take 3 B = BOM_UTF8 then drop 3 B else B))"
  by (simp add: w3_html_to_unicode_def w3_charset_utf8 read_bom_def BOM_UTF8_def to_unicode_def
        numeral_3_eq_3)

text \<open>
  Claim C7 says that reading \<^verbatim>\<open>text\<close> never raises, whatever the response and its body.
  \<^verbatim>\<open>text\<close> passes the resolved encoding to \<^verbatim>\<open>html_to_unicode\<close> with no \<^verbatim>\<open>try\<close> around the
  call, and the library decodes with \<^verbatim>\<open>bytes.decode(enc, 'replace')\<close>, which replaces
  undecodable bytes but raises \<^verbatim>\<open>LookupError\<close> for a codec that is not a text encoding.
  \<^verbatim>\<open>TextResponse('http://example.com/a/b', body=b'abc', encoding='hex')\<close> is constructed,
  its \<^verbatim>\<open>encoding\<close> is \<^verbatim>\<open>'hex'\<close>, and reading its \<^verbatim>\<open>text\<close> raises \<^verbatim>\<open>LookupError\<close>.
\<close>

theorem text_raises_for_hex_override:
  "field_of p_encoding (example_response (BodyBytes (bytes_of ''abc'')) (Some ''hex''))
     = Inr (Some ''hex'')
   \<and> field_of p_body (example_response (BodyBytes (bytes_of ''abc'')) (Some ''hex''))
     = Inr [0x61, 0x62, 0x63]
   \<and> value_of (after (example_response (BodyBytes (bytes_of ''abc'')) (Some ''hex''))
                    (encoding w3lib)) = Inr ''hex''
   \<and> value_of (after (example_response (BodyBytes (bytes_of ''abc'')) (Some ''hex''))
                    (response_text w3lib)) = Inl LookupError"
proof -
  let ?r = "(before_setters None 200 (Some ''hex''))\<lparr>p_body := [0x61, 0x62, 0x63],
              p_url := ''http://example.com/a/b'', request := None, flags := []\<rparr>"
  have t: "truthy (Some ''hex'')" by simp
  have i: "example_response (BodyBytes (bytes_of ''abc'')) (Some ''hex'') = Inr ?r"
    unfolding example_response_def bytes_abc using init_override [OF t, of w3lib]
    by (simp add: w3_to_native_str_def)
  have f: "p_encoding ?r = Some ''hex''" "p_body ?r = [0x61, 0x62, 0x63]"
    "cached_ubody ?r = None"
    by simp_all
  have e: "encoding w3lib ?r = Inr (''hex'', ?r)"
    using encoding_override [of ?r w3lib] f(1) by simp
  have x: "response_text w3lib ?r = Inl LookupError"
    using text_override [of ?r w3lib] f by (simp add: w3_hex_abc)
  from e x f show ?thesis
    unfolding i by (simp add: after_def value_of_def field_of_def)
qed

text \<open>
  Claim C7 as amended. \<^verbatim>\<open>response.py\<close> decodes nothing on its own when \<^verbatim>\<open>text\<close> is read: on
  every object a caller can hold, \<^verbatim>\<open>text\<close> either returns the text the object already
  keeps, or an encoding \<open>E\<close> is declared and \<^verbatim>\<open>text\<close> is the text of
  \<^verbatim>\<open>html_to_unicode('charset=' + E, body)\<close>; it then raises exactly when this one call
  raises, with the same exception. Where no encoding is declared, construction has stored
  the text of the \<^verbatim>\<open>html_to_unicode\<close> call of \<^verbatim>\<open>_body_inferred_encoding\<close>, whose detector
  never raises: the errors of its strict decodes are caught. Undecodable bytes are thus
  replaced wherever the library decodes under a text encoding: on the instance of the
  library, with the override \<^verbatim>\<open>'utf-8'\<close> every byte body reads as its UTF-8 decoding with
  U+FFFD for each ill-formed sequence, after a leading byte order mark is dropped.
\<close>

theorem text_is_html_to_unicode_text:
  "(reachable L self \<longrightarrow>
      (case cached_ubody self of
         Some t \<Rightarrow> response_text L self = Inr (t, self)
       | None \<Rightarrow>
           truthy (declared_signal L self)
           \<and> response_text L self =
               (case html_to_unicode L (''charset='' @ the (declared_signal L self))
                       (p_body self) ''utf8'' None of
                  Inl e \<Rightarrow> Inl e
                | Inr (enc, t) \<Rightarrow> Inr (t, self\<lparr>cached_ubody := Some t\<rparr>))))
   \<and> (TextResponse_init L (UrlStr u) st hdrs (BodyBytes B) flgs req enc = Inr self0
        \<longrightarrow> \<not> truthy (declared_signal L self0)
        \<longrightarrow> (\<exists>benc t. html_to_unicode L (to_native_str L (Inl (content_type L self0)) None) B
                         DEFAULT_ENCODING (Some (auto_detect_fun L)) = Inr (benc, t)
               \<and> cached_ubody self0 = Some t))
   \<and> (\<exists>r. auto_detect_fun L B = Inr r)
   \<and> value_of (after (example_response (BodyBytes B) (Some ''utf-8'')) (response_text w3lib))
       = Inr (replace_utf_8 (if take 3 B = BOM_UTF8 then drop 3 B else B))"
proof (intro conjI impI)
  assume r: "reachable L self"
  then obtain v where s: "settled L v self" using reachable_settled by blast
  from r have c: "cache_inv L self" by (rule reachable_cache_inv)
  show "case cached_ubody self of
         Some t \<Rightarrow> response_text L self = Inr (t, self)
       | None \<Rightarrow>
           truthy (declared_signal L self)
           \<and> response_text L self =
               (case html_to_unicode L (''charset='' @ the (declared_signal L self))
                       (p_body self) ''utf8'' None of
                  Inl e \<Rightarrow> Inl e
                | Inr (enc, t) \<Rightarrow> Inr (t, self\<lparr>cached_ubody := Some t\<rparr>))"
  proof (cases "cached_ubody self")
    case None
    from settled_declared [OF s c None] settled_first_text [OF s None] None
    show ?thesis by simp
  next
    case (Some t)
    with settled_text [OF s Some] show ?thesis by simp
  qed
next
  assume "TextResponse_init L (UrlStr u) st hdrs (BodyBytes B) flgs req enc = Inr self0"
    "\<not> truthy (declared_signal L self0)"
  from init_inferred [OF this]
  show "\<exists>benc t. html_to_unicode L (to_native_str L (Inl (content_type L self0)) None) B
                    DEFAULT_ENCODING (Some (auto_detect_fun L)) = Inr (benc, t)
          \<and> cached_ubody self0 = Some t"
    by blast
next
  show "\<exists>r. auto_detect_fun L B = Inr r" by (simp add: auto_detect_fun_eq)
next
  show "value_of (after (example_response (BodyBytes B) (Some ''utf-8'')) (response_text w3lib))
          = Inr (replace_utf_8 (if take 3 B = BOM_UTF8 then drop 3 B else B))"
    by (simp add: example_utf8 after_def utf8_object_text w3_utf8_any value_of_def)
qed

theorem text_is_html_to_unicode_text_witness:
  "reachable w3lib (utf8_object [0xFF])
   \<and> cached_ubody (utf8_object [0xFF]) = None
   \<and> declared_signal w3lib (utf8_object [0xFF]) = Some ''utf-8''
   \<and> response_text w3lib (utf8_object [0xFF])
       = Inr ([0xFFFD], (utf8_object [0xFF])\<lparr>cached_ubody := Some [0xFFFD]\<rparr>)
   \<and> reachable w3lib plain_object
   \<and> response_text w3lib plain_object = Inr ([97, 98, 99], plain_object)
   \<and> example_response (BodyBytes [0x61, 0x62, 0x63]) None = Inr plain_object
   \<and> \<not> truthy (declared_signal w3lib plain_object)
   \<and> cached_ubody plain_object = Some [97, 98, 99]
   \<and> value_of (after (example_response (BodyBytes [0xFF]) (Some ''utf-8''))
                    (response_text w3lib)) = Inr [0xFFFD]"
proof -
  let ?abc = "[0x61, 0x62, 0x63] :: bytes"
  have u: "TextResponse_init w3lib (UrlStr ''http://example.com/a/b'') 200 None
             (BodyBytes [0xFF]) None None (Some ''utf-8'') = Inr (utf8_object [0xFF])"
    using example_utf8 [of "[0xFF]"] by (simp add: example_response_def)
  have p: "TextResponse_init w3lib (UrlStr ''http://example.com/a/b'') 200 None
             (BodyBytes ?abc) None None None = Inr plain_object"
    using example_plain by (simp add: example_response_def bytes_abc)
  have ru: "reachable w3lib (utf8_object [0xFF])" using u by (rule reachable.constructed)
  have rp: "reachable w3lib plain_object" using p by (rule reachable.constructed)
  have du: "declared_signal w3lib (utf8_object [0xFF]) = Some ''utf-8''"
    by (simp add: declared_signal_def)
  have dp: "declared_signal w3lib plain_object = None"
    by (simp add: declared_signal_def w3_no_declaration w3_no_header plain_object_def)
  have cp: "cached_ubody plain_object = Some [97, 98, 99]" by (simp add: plain_object_def)
  from text_is_html_to_unicode_text [of w3lib "utf8_object [0xFF]"
         "''http://example.com/a/b''" 200 None ?abc None None None plain_object]
       text_is_html_to_unicode_text [of w3lib plain_object
         "''http://example.com/a/b''" 200 None "[0xFF]" None None None plain_object]
       ru rp du dp cp p
  show ?thesis
    by (simp add: w3_utf8_ff example_response_def BOM_UTF8_def)
qed

section \<open>Body typing at construction\<close>

lemma init_none:
  "TextResponse_init L url st hdrs BodyNone flgs req enc
     = TextResponse_init L url st hdrs (BodyBytes []) flgs req enc"
  by (simp add: TextResponse_init_def TextResponse_set_body_def Response_set_body_def Let_def)

text \<open>
  Claim C9. A plain \<^verbatim>\<open>Response\<close> given a body that is neither bytes nor \<^verbatim>\<open>None\<close> raises
  \<^verbatim>\<open>TypeError\<close>; a \<^verbatim>\<open>TextResponse\<close> given a \<^verbatim>\<open>str\<close> body and no encoding raises \<^verbatim>\<open>TypeError\<close>
  in the constructor, whatever the URL is; and a \<^verbatim>\<open>None\<close> body is stored as the empty byte
  string by both classes: each \<^verbatim>\<open>_set_body\<close> assigns \<^verbatim>\<open>b''\<close> whatever the object held
  before, where it stores a bytes body as it is, and so does each constructor.
\<close>

theorem body_typing:
  "(\<exists>msg. Response_init r0 url st hdrs (BodyText t) flgs req = Inl (TypeError msg))
   \<and> (\<exists>msg. Response_init r0 url st hdrs BodyOther flgs req = Inl (TypeError msg))
   \<and> (\<exists>msg. TextResponse_init L url st hdrs (BodyText t) flgs req None = Inl (TypeError msg))
   \<and> (\<exists>msg. TextResponse_init L url st hdrs BodyOther flgs req enc = Inl (TypeError msg))
   \<and> Response_set_body BodyNone r0 = Inr (r0\<lparr>p_body := []\<rparr>)
   \<and> Response_set_body (BodyBytes bs) r0 = Inr (r0\<lparr>p_body := bs\<rparr>)
   \<and> TextResponse_set_body L BodyNone self0 = Inr (self0\<lparr>p_body := []\<rparr>)
   \<and> TextResponse_set_body L (BodyBytes bs) self0 = Inr (self0\<lparr>p_body := bs\<rparr>)
   \<and> field_of p_body (Response_init r0 (UrlStr u) st hdrs BodyNone flgs req) = Inr []
   \<and> field_of p_body (Response_init r0 (UrlStr u) st hdrs (BodyBytes bs) flgs req) = Inr bs
   \<and> (TextResponse_init L url st hdrs BodyNone flgs req enc = Inr self \<longrightarrow> p_body self = [])
   \<and> (TextResponse_init L url st hdrs (BodyBytes bs) flgs req enc = Inr self
        \<longrightarrow> p_body self = bs)"
proof (intro conjI impI)
  show "\<exists>msg. Response_init r0 url st hdrs (BodyText t) flgs req = Inl (TypeError msg)"
    by (simp add: Response_init_def Response_set_body_def body_type_error_def)
  show "\<exists>msg. Response_init r0 url st hdrs BodyOther flgs req = Inl (TypeError msg)"
    by (simp add: Response_init_def Response_set_body_def body_type_error_def)
  show "\<exists>msg. TextResponse_init L url st hdrs (BodyText t) flgs req None = Inl (TypeError msg)"
    by (simp add: TextResponse_init_def TextResponse_set_body_def Let_def before_setters_def
          no_encoding_error_def)
  show "\<exists>msg. TextResponse_init L url st hdrs BodyOther flgs req enc = Inl (TypeError msg)"
    by (simp add: TextResponse_init_def TextResponse_set_body_def Response_set_body_def Let_def
          body_type_error_def)
  show "Response_set_body BodyNone r0 = Inr (r0\<lparr>p_body := []\<rparr>)"
    by (simp add: Response_set_body_def)
  show "Response_set_body (BodyBytes bs) r0 = Inr (r0\<lparr>p_body := bs\<rparr>)"
    by (simp add: Response_set_body_def)
  show "TextResponse_set_body L BodyNone self0 = Inr (self0\<lparr>p_body := []\<rparr>)"
    by (simp add: TextResponse_set_body_def Response_set_body_def Let_def)
  show "TextResponse_set_body L (BodyBytes bs) self0 = Inr (self0\<lparr>p_body := bs\<rparr>)"
    by (simp add: TextResponse_set_body_def Response_set_body_def Let_def)
  show "field_of p_body (Response_init r0 (UrlStr u) st hdrs BodyNone flgs req) = Inr []"
    by (simp add: Response_init_def Response_set_body_def Response_set_url_def field_of_def)
  show "field_of p_body (Response_init r0 (UrlStr u) st hdrs (BodyBytes bs) flgs req) = Inr bs"
    by (simp add: Response_init_def Response_set_body_def Response_set_url_def field_of_def)
  { assume "TextResponse_init L url st hdrs BodyNone flgs req enc = Inr self"
    then show "p_body self = []" by (rule init_fields(6)) simp }
  { assume "TextResponse_init L url st hdrs (BodyBytes bs) flgs req enc = Inr self"
    then show "p_body self = bs" by (rule init_fields(7)) simp }
qed

theorem body_typing_witness:
  "TextResponse_init w3lib (UrlStr ''http://example.com/a/b'') 200 None BodyNone None None
     (Some ''utf-8'') = Inr (utf8_object [])
   \<and> p_body (utf8_object []) = []
   \<and> TextResponse_init w3lib (UrlStr ''http://example.com/a/b'') 200 None
       (BodyBytes [0x61, 0x62, 0x63]) None None (Some ''utf-8'')
       = Inr (utf8_object [0x61, 0x62, 0x63])
   \<and> p_body (utf8_object [0x61, 0x62, 0x63]) = [0x61, 0x62, 0x63]
   \<and> TextResponse_set_body w3lib BodyNone (utf8_object [0x61, 0x62, 0x63])
       = Inr (utf8_object [])
   \<and> Response_set_body BodyNone
         \<lparr>headers = [], status = 200, p_body = [0x61, 0x62, 0x63],
          p_url = ''http://example.com/a/b'', request = None, flags = []\<rparr>
       = Inr \<lparr>headers = [], status = 200, p_body = [],
              p_url = ''http://example.com/a/b'', request = None, flags = []\<rparr>
   \<and> field_of p_body
         (Response_init
            \<lparr>headers = [], status = 0, p_body = [0x61, 0x62, 0x63], p_url = [],
             request = None, flags = []\<rparr>
            (UrlStr ''http://example.com/a/b'') 200 None BodyNone None None)
       = Inr []"
proof -
  let ?abc = "[0x61, 0x62, 0x63] :: bytes"
  let ?r = "\<lparr>headers = [], status = 200, p_body = ?abc,
             p_url = ''http://example.com/a/b'', request = None, flags = []\<rparr>"
  let ?n = "\<lparr>headers = [], status = 0, p_body = ?abc, p_url = [],
             request = None, flags = []\<rparr>"
  have i: "TextResponse_init w3lib (UrlStr ''http://example.com/a/b'') 200 None BodyNone None
             None (Some ''utf-8'') = Inr (utf8_object [])"
    using example_utf8 [of "[]"] by (simp add: init_none example_response_def)
  have j: "TextResponse_init w3lib (UrlStr ''http://example.com/a/b'') 200 None
             (BodyBytes ?abc) None None (Some ''utf-8'') = Inr (utf8_object ?abc)"
    using example_utf8 [of ?abc] by (simp add: example_response_def)
  have k: "(utf8_object ?abc)\<lparr>p_body := []\<rparr> = utf8_object []" by (simp add: utf8_object_def)
  from body_typing [of ?r "UrlStr ''http://example.com/a/b''" 200 None "[]"
         None None w3lib "Some ''utf-8''" "[]" "utf8_object ?abc"
         "''http://example.com/a/b''" "utf8_object []"]
       body_typing [of ?n "UrlStr ''http://example.com/a/b''" 200 None "[]"
         None None w3lib "Some ''utf-8''" ?abc "utf8_object ?abc"
         "''http://example.com/a/b''" "utf8_object ?abc"]
       i j k
  show ?thesis by simp
qed

section \<open>urljoin\<close>

text \<open>
  Claim C1. On a \<^verbatim>\<open>TextResponse\<close> whose URL is \<^verbatim>\<open>http://example.com/a/b\<close>, \<^verbatim>\<open>urljoin('/path')\<close>
  and \<^verbatim>\<open>urljoin('c')\<close> raise \<^verbatim>\<open>TypeError\<close>: the method passes the response object, not its
  URL, as the base, and the library refuses to mix a non-string base with a string. The
  plain \<^verbatim>\<open>Response\<close> passes its URL and gets the library's resolution of the two strings.
\<close>

theorem TextResponse_urljoin_raises:
  "TextResponse_urljoin join (self\<lparr>p_url := ''http://example.com/a/b''\<rparr>) ''/path''
     = Inl (TypeError ''Cannot mix str and non-str arguments'')
   \<and> TextResponse_urljoin join (self\<lparr>p_url := ''http://example.com/a/b''\<rparr>) ''c''
     = Inl (TypeError ''Cannot mix str and non-str arguments'')
   \<and> Response_urljoin join (r\<lparr>p_url := ''http://example.com/a/b''\<rparr>) ''/path''
     = Inr (ArgStr (join ''http://example.com/a/b'' ''/path''))
   \<and> Response_urljoin join (r\<lparr>p_url := ''http://example.com/a/b''\<rparr>) ''c''
     = Inr (ArgStr (join ''http://example.com/a/b'' ''c''))"
  by (simp add: TextResponse_urljoin_def Response_urljoin_def urljoin_def mix_error_def)

section \<open>The deprecated alias\<close>

text \<open>
  Claim C10. \<^verbatim>\<open>body_as_unicode()\<close> returns what the \<^verbatim>\<open>text\<close> property returns, and leaves
  the object as the property leaves it, on every \<^verbatim>\<open>TextResponse\<close>.
\<close>

theorem body_as_unicode_is_text: "body_as_unicode L self = response_text L self"
  by (simp add: body_as_unicode_def)

end
